theory Spec2Isabelle
  imports Complex_Main "HOL-Library.AList"
begin

section \<open>Conventions\<close>

text \<open>
  The bot is TypeScript. A JavaScript \<open>number\<close> is a \<^typ>\<open>real\<close>, and a value the program
  stores is a double when \<open>fl\<close> leaves it as it is. The running sums of the guardrail state,
  the \<open>+=\<close> and \<open>-=\<close> of \<open>recordTrade\<close> and \<open>recordClose\<close>, are rounded to the nearest double
  after each operation, as the processor does: there the rounding accumulates and decides
  what the state holds. The single products, quotients and comparisons of the strategy and
  of the pre-trade check are exact. Overflow and the special values (NaN, the infinities,
  the negative zero) are not followed. Where the source divides, the model says what happens
  at a zero divisor instead of using the division of HOL there.

  Every read of the system clock is an argument: a \<open>clock\<close> holds what
  \<open>new Date().toISOString().slice(0, 10)\<close>, \<open>Date.now()\<close> and \<open>new Date().toISOString()\<close> return.
  The module-level variable \<open>state\<close> of \<open>guardrails.ts\<close> and the file \<open>trades.jsonl\<close> are passed
  in and returned. Template strings built for people (reasons, messages, log lines) are
  constructors that carry the interpolated values.
\<close>

subsection \<open>Rounding to a double\<close>

text \<open>
  \<open>fl x\<close> is the IEEE-754 binary64 number nearest to \<open>x\<close>, ties to the even mantissa. The
  magnitude is scaled by powers of two until the mantissa \<open>m\<close> lies in \<open>[2^52, 2^53)\<close>, the
  unit \<open>u\<close> of the last place never going below \<open>2^-1074\<close> (the subnormal numbers); then \<open>m\<close> is
  rounded to an integer. The fuel of \<open>normalise\<close> bounds the number of scalings; 2200 is more
  than the exponent range of a double needs.
\<close>

definition roundHalfEven :: "real \<Rightarrow> int" where
  "roundHalfEven x =
     (let f = \<lfloor>x\<rfloor>; d = x - of_int f
      in if d < 1 / 2 then f else if d > 1 / 2 then f + 1 else if even f then f else f + 1)"

fun normalise :: "nat \<Rightarrow> real \<Rightarrow> real \<Rightarrow> real \<times> real" where
  "normalise fuel m u =
     (if fuel = 0 then (m, u)
      else if m < 2 ^ 52 \<and> u > 1 / 2 ^ 1074 then normalise (fuel - 1) (2 * m) (u / 2)
      else if m \<ge> 2 ^ 53 then normalise (fuel - 1) (m / 2) (2 * u)
      else (m, u))"

declare normalise.simps [simp del]

definition fl :: "real \<Rightarrow> real" where
  "fl x =
     (if x = 0 then 0
      else (case normalise 2200 \<bar>x\<bar> 1 of
              (m, u) \<Rightarrow> sgn x * of_int (roundHalfEven m) * u))"

subsection \<open>Clock and outcome labels\<close>

record clock =
  today :: string
  now_ms :: int
  iso_time :: string

datatype outcome_label = Up | Down

section \<open>Configuration (\<open>src/config.ts\<close>, interface \<open>TraderConfig\<close>)\<close>

record TraderConfig =
  privateKey :: string
  funderAddress :: string
  signatureType :: nat
  enabled :: bool
  dryRun :: bool
  maxOrderSize :: real
  maxPositionSize :: real
  maxDailyLoss :: real
  maxTradesPerHour :: real
  minEntryPrice :: real
  entryWindowMinStart :: real
  entryWindowMinEnd :: real
  takeProfitPct :: real
  tickIntervalSec :: real

section \<open>Guardrail state (\<open>src/guardrails.ts\<close>, lines 78 to 250)\<close>

text \<open>
  \<open>openPositions\<close> is a JavaScript \<open>Map\<close> from condition id to position: an association list in
  insertion order. \<open>Map.set\<close> is \<^const>\<open>AList.update\<close> (an existing key keeps its place and gets
  the new value, a new key goes to the end), \<open>Map.get\<close> is \<^const>\<open>map_of\<close> and \<open>Map.delete\<close> is
  \<^const>\<open>AList.delete\<close>. The field \<open>negRisk\<close> of a position is the one of the interface at the top
  of the file, which \<open>executeBuy\<close> fills in.
\<close>

record PositionRecord =
  p_conditionId :: string
  p_tokenId :: string
  p_outcome :: outcome_label
  entryPrice :: real
  p_size :: real
  costBasis :: real
  entryTime :: int
  marketSlug :: string
  p_negRisk :: bool

record GuardrailState =
  dailyPnl :: real
  dailyTradeCount :: nat
  hourlyTrades :: "int list"
  totalExposure :: real
  openPositions :: "(string \<times> PositionRecord) list"
  killswitch :: bool
  lastResetDay :: string

definition createFreshState :: "clock \<Rightarrow> GuardrailState" where
  "createFreshState clk =
     \<lparr>dailyPnl = 0, dailyTradeCount = 0, hourlyTrades = [], totalExposure = 0,
      openPositions = [], killswitch = False, lastResetDay = today clk\<rparr>"

definition maybeResetDaily :: "clock \<Rightarrow> GuardrailState \<Rightarrow> GuardrailState" where
  "maybeResetDaily clk s =
     (if today clk \<noteq> lastResetDay s
      then s\<lparr>dailyPnl := 0, dailyTradeCount := 0, hourlyTrades := [], lastResetDay := today clk\<rparr>
      else s)"

definition pruneHourlyTrades :: "clock \<Rightarrow> GuardrailState \<Rightarrow> GuardrailState" where
  "pruneHourlyTrades clk s =
     (let oneHourAgo = now_ms clk - 3600000
      in s\<lparr>hourlyTrades := filter (\<lambda>t. t > oneHourAgo) (hourlyTrades s)\<rparr>)"

datatype deny_reason =
    KillswitchActive
  | TradingDisabled
  | OrderSizeExceedsMax real real
  | WouldExceedMaxPosition real real real
  | DailyLossLimitHit real real
  | HourlyTradeLimitHit nat real

record PreTradeCheck =
  allowed :: bool
  deny :: "deny_reason option"

definition checkPreTrade ::
  "TraderConfig \<Rightarrow> real \<Rightarrow> clock \<Rightarrow> GuardrailState \<Rightarrow> PreTradeCheck \<times> GuardrailState" where
  "checkPreTrade config orderSizeUSDC clk s0 =
     (let s = pruneHourlyTrades clk (maybeResetDaily clk s0)
      in if killswitch s then
           (\<lparr>allowed = False, deny = Some KillswitchActive\<rparr>, s)
         else if \<not> enabled config then
           (\<lparr>allowed = False, deny = Some TradingDisabled\<rparr>, s)
         else if orderSizeUSDC > maxOrderSize config then
           (\<lparr>allowed = False,
             deny = Some (OrderSizeExceedsMax orderSizeUSDC (maxOrderSize config))\<rparr>, s)
         else if totalExposure s + orderSizeUSDC > maxPositionSize config then
           (\<lparr>allowed = False,
             deny = Some (WouldExceedMaxPosition (totalExposure s) orderSizeUSDC
                            (maxPositionSize config))\<rparr>, s)
         else if \<bar>dailyPnl s\<bar> \<ge> maxDailyLoss config \<and> dailyPnl s < 0 then
           (\<lparr>allowed = False,
             deny = Some (DailyLossLimitHit \<bar>dailyPnl s\<bar> (maxDailyLoss config))\<rparr>, s)
         else if real (length (hourlyTrades s)) \<ge> maxTradesPerHour config then
           (\<lparr>allowed = False,
             deny = Some (HourlyTradeLimitHit (length (hourlyTrades s))
                            (maxTradesPerHour config))\<rparr>, s)
         else (\<lparr>allowed = True, deny = None\<rparr>, s))"

definition recordTrade :: "PositionRecord \<Rightarrow> clock \<Rightarrow> GuardrailState \<Rightarrow> GuardrailState" where
  "recordTrade position clk s =
     s\<lparr>hourlyTrades := hourlyTrades s @ [now_ms clk],
       dailyTradeCount := dailyTradeCount s + 1,
       totalExposure := fl (totalExposure s + costBasis position),
       openPositions := AList.update (p_conditionId position) position (openPositions s)\<rparr>"

definition recordClose :: "string \<Rightarrow> real \<Rightarrow> GuardrailState \<Rightarrow> GuardrailState" where
  "recordClose cid proceeds s =
     (case map_of (openPositions s) cid of
        None \<Rightarrow> s
      | Some pos \<Rightarrow>
          (let pnl = fl (proceeds - costBasis pos);
               s1 = s\<lparr>dailyPnl := fl (dailyPnl s + pnl),
                      totalExposure := fl (totalExposure s - costBasis pos),
                      openPositions := AList.delete cid (openPositions s)\<rparr>
           in if dailyPnl s1 < 0 \<and> \<bar>dailyPnl s1\<bar> \<ge> 25
              then s1\<lparr>killswitch := True\<rparr> else s1))"

definition activateKillswitch :: "string \<Rightarrow> GuardrailState \<Rightarrow> GuardrailState" where
  "activateKillswitch why s = s\<lparr>killswitch := True\<rparr>"

definition resetKillswitch :: "GuardrailState \<Rightarrow> GuardrailState" where
  "resetKillswitch s = s\<lparr>killswitch := False\<rparr>"

text \<open>
  \<open>getGuardrailState\<close> returns a copy of the state's fields together with the list of the
  positions, and leaves the reset and pruned state behind.
\<close>

definition getGuardrailState ::
  "clock \<Rightarrow> GuardrailState \<Rightarrow> (GuardrailState \<times> PositionRecord list) \<times> GuardrailState" where
  "getGuardrailState clk s0 =
     (let s = pruneHourlyTrades clk (maybeResetDaily clk s0)
      in ((s, map snd (openPositions s)), s))"

definition resetState :: "clock \<Rightarrow> GuardrailState \<Rightarrow> GuardrailState" where
  "resetState clk s = createFreshState clk"

text \<open>The sum of the cost bases of the open positions.\<close>

definition openCostBasis :: "GuardrailState \<Rightarrow> real" where
  "openCostBasis s = sum_list (map (\<lambda>kv. costBasis (snd kv)) (openPositions s))"

text \<open>A run of \<open>recordTrade\<close> and \<open>recordClose\<close> calls, each trade with the clock it reads.\<close>

datatype booking = Trade PositionRecord clock | Close string real

fun book :: "booking \<Rightarrow> GuardrailState \<Rightarrow> GuardrailState" where
  "book (Trade position clk) s = recordTrade position clk s"
| "book (Close cid proceeds) s = recordClose cid proceeds s"

fun bookAll :: "booking list \<Rightarrow> GuardrailState \<Rightarrow> GuardrailState" where
  "bookAll [] s = s"
| "bookAll (b # bs) s = bookAll bs (book b s)"

text \<open>
  Every \<open>recordTrade\<close> of the run is for a condition id that has no open position when it is
  called. This is what \<open>evaluateMarket\<close> arranges: with a position open for the market it
  evaluates the exit, and no BUY reaches \<open>executeBuy\<close>.
\<close>

fun tradesOnFreeKeys :: "booking list \<Rightarrow> GuardrailState \<Rightarrow> bool" where
  "tradesOnFreeKeys [] s = True"
| "tradesOnFreeKeys (Trade position clk # bs) s =
     (map_of (openPositions s) (p_conditionId position) = None
      \<and> tradesOnFreeKeys bs (recordTrade position clk s))"
| "tradesOnFreeKeys (Close cid proceeds # bs) s =
     tradesOnFreeKeys bs (recordClose cid proceeds s)"

text \<open>
  Every addition to and subtraction from \<open>totalExposure\<close> in the run is exact: its result is
  a double and is not rounded.
\<close>

fun exposureStepsExact :: "booking list \<Rightarrow> GuardrailState \<Rightarrow> bool" where
  "exposureStepsExact [] s = True"
| "exposureStepsExact (Trade position clk # bs) s =
     (fl (totalExposure s + costBasis position) = totalExposure s + costBasis position
      \<and> exposureStepsExact bs (recordTrade position clk s))"
| "exposureStepsExact (Close cid proceeds # bs) s =
     ((case map_of (openPositions s) cid of
         None \<Rightarrow> True
       | Some pos \<Rightarrow> fl (totalExposure s - costBasis pos) = totalExposure s - costBasis pos)
      \<and> exposureStepsExact bs (recordClose cid proceeds s))"

text \<open>Concrete values for the instances below.\<close>

definition demoClock :: clock where
  "demoClock = \<lparr>today = ''2026-02-10'', now_ms = 1770691822000,
                iso_time = ''2026-02-10T02:50:22.000Z''\<rparr>"

definition demoConfig :: TraderConfig where
  "demoConfig = \<lparr>privateKey = ''0xkey'', funderAddress = ''0xfunder'', signatureType = 1,
     enabled = True, dryRun = True, maxOrderSize = 10, maxPositionSize = 50,
     maxDailyLoss = 25, maxTradesPerHour = 10, minEntryPrice = 0.60,
     entryWindowMinStart = 5, entryWindowMinEnd = 10, takeProfitPct = 0.80,
     tickIntervalSec = 30\<rparr>"

definition demoPosition :: "string \<Rightarrow> real \<Rightarrow> PositionRecord" where
  "demoPosition cid cost =
     \<lparr>p_conditionId = cid, p_tokenId = ''tok-up'', p_outcome = Up, entryPrice = 0.5,
      p_size = 2 * cost, costBasis = cost, entryTime = 1770691822000,
      marketSlug = ''btc-updown-15m-1770691500'', p_negRisk = False\<rparr>"

definition overwritingRun :: "booking list" where
  "overwritingRun = [Trade (demoPosition ''0xa'' 4) demoClock, Trade (demoPosition ''0xa'' 6) demoClock]"

text \<open>
  The doubles that the literals 9.6 and 9.45 denote, and the double that their sum is rounded
  to (19.049999999999997).
\<close>

definition d9_6 :: real where
  "d9_6 = 5404319552844595 / 2 ^ 49"

definition d9_45 :: real where
  "d9_45 = 2659938529915699 / 2 ^ 48"

definition d19_05 :: real where
  "d19_05 = 1340524576584499 / 2 ^ 46"

definition roundingRun :: "booking list" where
  "roundingRun = [Trade (demoPosition ''0xa'' d9_6) demoClock,
                  Trade (demoPosition ''0xb'' d9_45) demoClock,
                  Close ''0xa'' d9_6]"

definition exactRun :: "booking list" where
  "exactRun = [Trade (demoPosition ''0xa'' 4) demoClock, Trade (demoPosition ''0xb'' 6) demoClock,
               Close ''0xa'' 7, Trade (demoPosition ''0xa'' 3) demoClock]"

definition holding96 :: GuardrailState where
  "holding96 = recordTrade (demoPosition ''0xb'' d9_6) demoClock (createFreshState demoClock)"

definition exposureInvariant :: "GuardrailState \<Rightarrow> bool" where
  "exposureInvariant s \<longleftrightarrow>
     distinct (map fst (openPositions s)) \<and> totalExposure s = openCostBasis s"

section \<open>Market snapshot (\<open>market-discovery.ts\<close>) and strategy (\<open>strategy.ts\<close>)\<close>

text \<open>
  The field \<open>closed\<close> of a market is \<open>closed_flag\<close> here. \<open>getLeadingOutcome\<close> is the
  \<open>reduce\<close> without a start value: the first outcome is the first best, and a later one
  replaces it only with a strictly higher price.
\<close>

record MarketOutcome =
  tokenId :: string
  outcome :: outcome_label
  price :: real

record ActiveMarket =
  conditionId :: string
  slug :: string
  question :: string
  startTime :: int
  endTime :: int
  secondsRemaining :: int
  minutesRemaining :: real
  outcomes :: "MarketOutcome list"
  tickSize :: string
  negRisk :: bool
  closed_flag :: bool

definition getLeadingOutcome :: "ActiveMarket \<Rightarrow> MarketOutcome option" where
  "getLeadingOutcome market =
     (case outcomes market of
        [] \<Rightarrow> None
      | first # others \<Rightarrow>
          Some (foldl (\<lambda>best cand. if price cand > price best then cand else best) first others))"

definition isInEntryWindow :: "ActiveMarket \<Rightarrow> real \<Rightarrow> real \<Rightarrow> bool" where
  "isInEntryWindow market minStart minEnd \<longleftrightarrow>
     minutesRemaining market \<ge> minStart \<and> minutesRemaining market \<le> minEnd"

datatype Signal = BUY | SELL | HOLD | WAIT

datatype signal_reason =
    MarketIsClosed
  | TooEarly real real real
  | TooLate real real
  | NoOutcomesAvailable
  | LeaderBelowMinEntry outcome_label real real
  | OrderSizeTooSmall
  | EntrySignal outcome_label real real
  | CantFindHeldPrice
  | TakeProfit real real
  | NearExpiryProfitLock real
  | Holding outcome_label real real
  | HoldingForResolution outcome_label real

record TradeSignal =
  signal :: Signal
  sig_outcome :: "MarketOutcome option"
  reason :: signal_reason
  suggestedSize :: "real option"
  suggestedPrice :: "real option"
  unrealizedGainPct :: "real option"

text \<open>
  Two places divide: \<open>maxOrderSize / pricePerShare\<close> in the entry and the gain over
  \<open>costBasis\<close> in the exit. At a zero divisor JavaScript yields an infinity or NaN, which a
  \<^typ>\<open>real\<close> cannot hold; the model returns \<open>Inl DivisionByZero\<close> there and follows the code
  everywhere else.
\<close>

datatype not_a_real = DivisionByZero

definition plainSignal :: "Signal \<Rightarrow> signal_reason \<Rightarrow> TradeSignal" where
  "plainSignal sg why =
     \<lparr>signal = sg, sig_outcome = None, reason = why, suggestedSize = None,
      suggestedPrice = None, unrealizedGainPct = None\<rparr>"

definition evaluateEntry :: "ActiveMarket \<Rightarrow> TraderConfig \<Rightarrow> not_a_real + TradeSignal" where
  "evaluateEntry market config =
     (if closed_flag market then Inr (plainSignal WAIT MarketIsClosed)
      else if \<not> isInEntryWindow market (entryWindowMinStart config) (entryWindowMinEnd config) then
        (if minutesRemaining market > entryWindowMinEnd config
         then Inr (plainSignal WAIT (TooEarly (minutesRemaining market)
                     (entryWindowMinStart config) (entryWindowMinEnd config)))
         else Inr (plainSignal WAIT (TooLate (minutesRemaining market)
                     (entryWindowMinStart config))))
      else
        (case getLeadingOutcome market of
           None \<Rightarrow> Inr (plainSignal WAIT NoOutcomesAvailable)
         | Some leader \<Rightarrow>
             if price leader < minEntryPrice config then
               Inr (plainSignal WAIT (LeaderBelowMinEntry (outcome leader) (price leader)
                      (minEntryPrice config)))
             else if price leader = 0 then Inl DivisionByZero
             else
               (let pricePerShare = price leader;
                    maxShares = real_of_int \<lfloor>maxOrderSize config / pricePerShare\<rfloor>
                in if maxShares \<le> 0 then Inr (plainSignal WAIT OrderSizeTooSmall)
                   else Inr \<lparr>signal = BUY, sig_outcome = Some leader,
                          reason = EntrySignal (outcome leader) pricePerShare
                                     (minutesRemaining market),
                          suggestedSize = Some maxShares, suggestedPrice = Some pricePerShare,
                          unrealizedGainPct = None\<rparr>)))"

text \<open>
  The exit evaluation with the take-profit (the strategy file with the \<open>SELL\<close> signal,
  lines 108 to 151).
\<close>

definition evaluateExit ::
  "ActiveMarket \<Rightarrow> PositionRecord \<Rightarrow> TraderConfig \<Rightarrow> not_a_real + TradeSignal" where
  "evaluateExit market position config =
     (case find (\<lambda>cand. tokenId cand = p_tokenId position) (outcomes market) of
        None \<Rightarrow> Inr (plainSignal HOLD CantFindHeldPrice)
      | Some held \<Rightarrow>
          if costBasis position = 0 then Inl DivisionByZero
          else
            (let currentValue = price held * p_size position;
                 gain = (currentValue - costBasis position) / costBasis position
             in if gain \<ge> takeProfitPct config then
                  Inr \<lparr>signal = SELL, sig_outcome = Some held,
                       reason = TakeProfit gain (takeProfitPct config),
                       suggestedSize = Some (p_size position),
                       suggestedPrice = Some (price held), unrealizedGainPct = Some gain\<rparr>
                else if minutesRemaining market < 1 \<and> gain > 0.1 then
                  Inr \<lparr>signal = SELL, sig_outcome = Some held,
                       reason = NearExpiryProfitLock gain,
                       suggestedSize = Some (p_size position),
                       suggestedPrice = Some (price held), unrealizedGainPct = Some gain\<rparr>
                else
                  Inr \<lparr>signal = HOLD, sig_outcome = None,
                       reason = Holding (p_outcome position) gain (takeProfitPct config),
                       suggestedSize = None, suggestedPrice = None,
                       unrealizedGainPct = Some gain\<rparr>))"

text \<open>
  The other \<open>evaluateExit\<close> of the repository (\<open>src/strategy.ts\<close>, lines 109 to 127): the same
  gain, and always \<open>HOLD\<close>.
\<close>

definition evaluateExitHoldOnly ::
  "ActiveMarket \<Rightarrow> PositionRecord \<Rightarrow> TraderConfig \<Rightarrow> not_a_real + TradeSignal" where
  "evaluateExitHoldOnly market position config =
     (case find (\<lambda>cand. tokenId cand = p_tokenId position) (outcomes market) of
        None \<Rightarrow> Inr (plainSignal HOLD CantFindHeldPrice)
      | Some held \<Rightarrow>
          if costBasis position = 0 then Inl DivisionByZero
          else
            (let currentValue = price held * p_size position;
                 gain = (currentValue - costBasis position) / costBasis position
             in Inr \<lparr>signal = HOLD, sig_outcome = None,
                     reason = HoldingForResolution (p_outcome position) gain,
                     suggestedSize = None, suggestedPrice = None,
                     unrealizedGainPct = Some gain\<rparr>))"

definition evaluateMarket ::
  "ActiveMarket \<Rightarrow> TraderConfig \<Rightarrow> clock \<Rightarrow> GuardrailState
     \<Rightarrow> (not_a_real + TradeSignal) \<times> GuardrailState" where
  "evaluateMarket market config clk s0 =
     (case getGuardrailState clk s0 of
        ((snapshot, positionsList), s) \<Rightarrow>
          (case find (\<lambda>p. p_conditionId p = conditionId market) positionsList of
             Some existingPosition \<Rightarrow> (evaluateExit market existingPosition config, s)
           | None \<Rightarrow> (evaluateEntry market config, s)))"

definition upAt :: "string \<Rightarrow> real \<Rightarrow> MarketOutcome" where
  "upAt tok p = \<lparr>tokenId = tok, outcome = Up, price = p\<rparr>"

definition downAt :: "string \<Rightarrow> real \<Rightarrow> MarketOutcome" where
  "downAt tok p = \<lparr>tokenId = tok, outcome = Down, price = p\<rparr>"

definition demoMarket :: "real \<Rightarrow> MarketOutcome list \<Rightarrow> ActiveMarket" where
  "demoMarket mins os =
     \<lparr>conditionId = ''0xc0nd'', slug = ''btc-updown-15m-1770691500'',
      question = ''Bitcoin Up or Down'', startTime = 1770691500, endTime = 1770692400,
      secondsRemaining = 576, minutesRemaining = mins, outcomes = os, tickSize = ''0.01'',
      negRisk = False, closed_flag = False\<rparr>"

section \<open>Trade ledger (\<open>src/guardrails.ts\<close>, lines 252 to 321: the module \<open>trade-log\<close>)\<close>

text \<open>
  The file \<open>trades.jsonl\<close> is what \<open>hasEntry\<close> reads and \<open>appendFileSync\<close> extends. It holds
  the lines that end in a newline, oldest first, and after them possibly a torn tail: text
  other than white space with no newline after it, as a write cut short leaves it. A missing
  file is the file with no lines (both make \<open>hasEntry\<close> return false, and \<open>appendFileSync\<close>
  creates the file). \<open>hasEntry\<close> trims the content and splits it at the newlines, so it reads
  the whole lines and then the tail as the last line.

  A line is \<open>BlankLine\<close> when the loop passes over it (an empty line, or JSON without the
  \<open>type\<close> and \<open>slug\<close> of an entry), \<open>Unparsable\<close> when \<open>JSON.parse\<close> or the field access throws on
  it, or an entry as \<open>logBuy\<close> and \<open>logResolution\<close> write it. \<open>hasEntry\<close> walks from the last
  line to the first; the \<open>catch\<close> around the loop makes a line that throws end the search
  with false.

  \<open>appendFileSync\<close> adds the JSON of the entry and a newline to the bytes of the file. After
  whole lines that is a new line. After a torn tail the JSON is glued onto the tail, and the
  line so formed is one \<open>JSON.parse\<close> rejects: the JSON of an entry is a complete object, and
  text before a complete object is valid JSON only if it is white space.
\<close>

record BuyEntry =
  b_time :: string
  b_slug :: string
  b_outcome :: outcome_label
  b_price :: real
  b_size :: real
  b_cost :: real
  b_orderId :: string

record ResolutionEntry =
  r_time :: string
  r_slug :: string
  resolved :: outcome_label

datatype log_entry = Buy BuyEntry | Resolution ResolutionEntry

datatype log_line = BlankLine | Unparsable | EntryLine log_entry

fun entry_type :: "log_entry \<Rightarrow> string" where
  "entry_type (Buy b) = ''buy''"
| "entry_type (Resolution r) = ''resolution''"

fun entry_slug :: "log_entry \<Rightarrow> string" where
  "entry_slug (Buy b) = b_slug b"
| "entry_slug (Resolution r) = r_slug r"

record LedgerFile =
  whole_lines :: "log_line list"
  torn_tail :: "log_line option"

definition newlineEnded :: "log_line list \<Rightarrow> LedgerFile" where
  "newlineEnded ls = \<lparr>whole_lines = ls, torn_tail = None\<rparr>"

definition readLines :: "LedgerFile \<Rightarrow> log_line list" where
  "readLines file =
     whole_lines file @ (case torn_tail file of None \<Rightarrow> [] | Some tail \<Rightarrow> [tail])"

definition appendEntry :: "log_entry \<Rightarrow> LedgerFile \<Rightarrow> LedgerFile" where
  "appendEntry e file =
     (case torn_tail file of
        None \<Rightarrow> \<lparr>whole_lines = whole_lines file @ [EntryLine e], torn_tail = None\<rparr>
      | Some tail \<Rightarrow> \<lparr>whole_lines = whole_lines file @ [Unparsable], torn_tail = None\<rparr>)"

definition logBuy ::
  "string \<Rightarrow> outcome_label \<Rightarrow> real \<Rightarrow> real \<Rightarrow> real \<Rightarrow> string \<Rightarrow> clock
     \<Rightarrow> LedgerFile \<Rightarrow> LedgerFile" where
  "logBuy sl oc pr sz cost oid clk file =
     appendEntry (Buy \<lparr>b_time = iso_time clk, b_slug = sl, b_outcome = oc, b_price = pr,
                         b_size = sz, b_cost = cost, b_orderId = oid\<rparr>) file"

definition logResolution ::
  "string \<Rightarrow> outcome_label \<Rightarrow> clock \<Rightarrow> LedgerFile \<Rightarrow> LedgerFile" where
  "logResolution sl winner clk file =
     appendEntry (Resolution \<lparr>r_time = iso_time clk, r_slug = sl, resolved = winner\<rparr>) file"

fun hasEntry_from_last :: "string \<Rightarrow> string \<Rightarrow> log_line list \<Rightarrow> bool" where
  "hasEntry_from_last ty sl [] = False"
| "hasEntry_from_last ty sl (BlankLine # earlier) = hasEntry_from_last ty sl earlier"
| "hasEntry_from_last ty sl (Unparsable # earlier) = False"
| "hasEntry_from_last ty sl (EntryLine e # earlier) =
     (if entry_type e = ty \<and> entry_slug e = sl then True
      else hasEntry_from_last ty sl earlier)"

definition hasEntry :: "string \<Rightarrow> string \<Rightarrow> LedgerFile \<Rightarrow> bool" where
  "hasEntry ty sl file = hasEntry_from_last ty sl (rev (readLines file))"

definition hasBoughtSlug :: "string \<Rightarrow> LedgerFile \<Rightarrow> bool" where
  "hasBoughtSlug sl file = hasEntry ''buy'' sl file"

definition hasResolution :: "string \<Rightarrow> LedgerFile \<Rightarrow> bool" where
  "hasResolution sl file = hasEntry ''resolution'' sl file"

section \<open>Order execution (\<open>src/executor.ts\<close>, lines 1 to 127)\<close>

text \<open>
  The order client is an argument: \<open>None\<close> when \<open>isClientReady()\<close> is false, else the function
  \<open>createAndPostOrder\<close>, which throws a message or returns the \<open>orderID\<close> and \<open>status\<close> of
  the response (empty when the response or the field is missing). The world of \<open>executeBuy\<close>
  is the ledger file, the guardrail state, the calls made to the order client and the lines
  given to the logger. \<open>clk\<close> is the clock before the order is awaited, \<open>clkAfter\<close> the clock
  after. A signal field that is \<open>undefined\<close> is \<open>None\<close>; a size or price of 0 is falsy.
\<close>

definition VALID_TICK_SIZES :: "string list" where
  "VALID_TICK_SIZES = [''0.1'', ''0.01'', ''0.001'', ''0.0001'']"

definition toTickSize :: "string \<Rightarrow> string" where
  "toTickSize raw = (if raw \<in> set VALID_TICK_SIZES then raw else ''0.01'')"

datatype Side = SideBUY | SideSELL

datatype OrderType = GTC

record OrderRequest =
  o_tokenID :: string
  o_price :: real
  o_size :: real
  o_side :: Side
  o_tickSize :: string
  o_negRisk :: bool
  o_orderType :: OrderType

datatype post_outcome = PostThrows string | PostReturns string string

datatype exec_message =
    InvalidBuySignal
  | AlreadyBought string
  | GuardrailBlocked "deny_reason option"
  | DryRunWouldBuy real outcome_label real real signal_reason
  | ClientNotInitialized
  | BuyFilled real outcome_label real real string
  | OrderNotFilled string string
  | BuyFailed string

record ExecutionResult =
  success :: bool
  orderId :: "string option"
  message :: exec_message
  res_dryRun :: bool

record World =
  ledger :: LedgerFile
  guard :: GuardrailState
  orderCalls :: "OrderRequest list"
  logged :: "exec_message list"

definition failure :: "exec_message \<Rightarrow> ExecutionResult" where
  "failure msg = \<lparr>success = False, orderId = None, message = msg, res_dryRun = False\<rparr>"

definition positionOf ::
  "ActiveMarket \<Rightarrow> MarketOutcome \<Rightarrow> real \<Rightarrow> real \<Rightarrow> real \<Rightarrow> clock \<Rightarrow> PositionRecord" where
  "positionOf market oc pr sz orderCost clk =
     \<lparr>p_conditionId = conditionId market, p_tokenId = tokenId oc, p_outcome = outcome oc,
      entryPrice = pr, p_size = sz, costBasis = orderCost, entryTime = now_ms clk,
      marketSlug = slug market, p_negRisk = negRisk market\<rparr>"

definition executeBuy ::
  "TradeSignal \<Rightarrow> ActiveMarket \<Rightarrow> TraderConfig \<Rightarrow> (OrderRequest \<Rightarrow> post_outcome) option
     \<Rightarrow> clock \<Rightarrow> clock \<Rightarrow> World \<Rightarrow> ExecutionResult \<times> World" where
  "executeBuy sg market config client clk clkAfter w =
     (case (sig_outcome sg, suggestedSize sg, suggestedPrice sg) of
        (Some oc, Some sz, Some pr) \<Rightarrow>
          if sz = 0 \<or> pr = 0 then (failure InvalidBuySignal, w)
          else
            (let orderCost = sz * pr
             in if hasBoughtSlug (slug market) (ledger w) then
                  (failure (AlreadyBought (slug market)), w)
                else
                  (case checkPreTrade config orderCost clk (guard w) of
                     (check, g) \<Rightarrow>
                       if \<not> allowed check then
                         (failure (GuardrailBlocked (deny check)), w\<lparr>guard := g\<rparr>)
                       else if dryRun config then
                         (let msg = DryRunWouldBuy sz (outcome oc) pr orderCost (reason sg)
                          in (\<lparr>success = True, orderId = None, message = msg,
                                res_dryRun = True\<rparr>,
                              w\<lparr>logged := logged w @ [msg],
                                guard := recordTrade
                                           (positionOf market oc pr sz orderCost clk) clk g,
                                ledger := logBuy (slug market) (outcome oc) pr sz orderCost
                                            ''dry-run'' clk (ledger w)\<rparr>))
                       else
                         (case client of
                            None \<Rightarrow> (failure ClientNotInitialized, w\<lparr>guard := g\<rparr>)
                          | Some createAndPostOrder \<Rightarrow>
                              (let request =
                                     \<lparr>o_tokenID = tokenId oc, o_price = pr, o_size = sz,
                                      o_side = SideBUY,
                                      o_tickSize = toTickSize (tickSize market),
                                      o_negRisk = negRisk market, o_orderType = GTC\<rparr>;
                                   w1 = w\<lparr>guard := g, orderCalls := orderCalls w @ [request]\<rparr>
                               in case createAndPostOrder request of
                                    PostThrows err \<Rightarrow> (failure (BuyFailed err), w1)
                                  | PostReturns rawId rawStatus \<Rightarrow>
                                      (let oid = (if rawId = [] then ''unknown'' else rawId);
                                           status = (if rawStatus = [] then ''unknown''
                                                     else rawStatus)
                                       in if status = ''matched'' \<or> status = ''live'' then
                                            (let msg = BuyFilled sz (outcome oc) pr orderCost oid
                                             in (\<lparr>success = True, orderId = Some oid,
                                                   message = msg, res_dryRun = False\<rparr>,
                                                 w1\<lparr>guard := recordTrade
                                                        (positionOf market oc pr sz orderCost
                                                           clkAfter) clkAfter g,
                                                    ledger := logBuy (slug market) (outcome oc)
                                                        pr sz orderCost oid clkAfter (ledger w),
                                                    logged := logged w @ [msg]\<rparr>))
                                          else (failure (OrderNotFilled status oid), w1))))))
      | _ \<Rightarrow> (failure InvalidBuySignal, w))"

definition emptyWorld :: World where
  "emptyWorld = \<lparr>ledger = newlineEnded [], guard = createFreshState demoClock,
                  orderCalls = [], logged = []\<rparr>"

definition demoBuySignal :: TradeSignal where
  "demoBuySignal = \<lparr>signal = BUY, sig_outcome = Some (upAt ''tok-up'' 0.62),
      reason = EntrySignal Up 0.62 9.6, suggestedSize = Some 16, suggestedPrice = Some 0.62,
      unrealizedGainPct = None\<rparr>"

definition lineParses :: "log_line \<Rightarrow> bool" where
  "lineParses l \<longleftrightarrow> l \<noteq> Unparsable"

definition afterFirstBuy :: World where
  "afterFirstBuy = snd (executeBuy demoBuySignal
      (demoMarket 9.6 [upAt ''tok-up'' 0.62, downAt ''tok-down'' 0.38]) demoConfig None
      demoClock demoClock emptyWorld)"

definition restarted :: World where
  "restarted = afterFirstBuy\<lparr>guard := createFreshState demoClock\<rparr>"

definition demoBuyEntry :: BuyEntry where
  "demoBuyEntry = \<lparr>b_time = ''2026-02-10T02:50:22.000Z'',
      b_slug = ''btc-updown-15m-1770691500'', b_outcome = Up, b_price = 0.62, b_size = 16,
      b_cost = 16 * 0.62, b_orderId = ''dry-run''\<rparr>"

definition brokenLineWorld :: World where
  "brokenLineWorld =
     emptyWorld\<lparr>ledger := newlineEnded [EntryLine (Buy demoBuyEntry), Unparsable]\<rparr>"

section \<open>Redemption sweep (\<open>src/redeemer.ts\<close>)\<close>

text \<open>
  The sweep talks to the Gamma API and to a Polygon RPC peer. What they answer is the
  argument \<open>env\<close> of a sweep: whether the provider and wallet can be built, the MATIC balance
  (in wei) or the error of \<open>getBalance\<close>, the clock, and for each slug the answer of the
  market fetch. \<open>NoMarket\<close> stands for every answer that makes the loop \<open>continue\<close> before it
  reads a market: \<open>fetch\<close> or \<open>res.json()\<close> throws, the response is not ok, the JSON is not an
  array or is empty. A market carries its condition id (empty when neither field is set),
  the decoded \<open>outcomes\<close> and \<open>outcomePrices\<close> (each price as \<open>parseFloat\<close> reads it, \<open>None\<close> for
  NaN; \<open>ListsThrow\<close> when decoding throws), and the token list (\<open>None\<close> when
  \<open>JSON.parse\<close> of \<open>clobTokenIds\<close> throws). Each token comes with what the chain answers for
  it: the balance or the failure of \<open>balanceOf\<close>, and what the redemption \<open>try\<close> block does,
  either an error thrown or a submitted transaction with the answers of \<open>tx.wait()\<close> per
  attempt and of \<open>getTransactionReceipt\<close>. The pauses (\<open>sleep\<close>) have no counterpart.

  The world of a sweep is the ledger file, the lines given to the logger and the redemption
  attempts made (condition id and token id).
\<close>

definition MARKET_DURATION_SEC :: int where
  "MARKET_DURATION_SEC = 900"

text \<open>
  The slug is \<open>btc-updown-15m-\<close> followed by the slot start in decimal, as the template string
  prints an integer.
\<close>

definition digitChar :: "nat \<Rightarrow> char" where
  "digitChar d = ''0123456789'' ! (d mod 10)"

fun decimalNat :: "nat \<Rightarrow> string" where
  "decimalNat n =
     (if n < 10 then [digitChar n] else decimalNat (n div 10) @ [digitChar (n mod 10)])"

declare decimalNat.simps [simp del]

definition decimalInt :: "int \<Rightarrow> string" where
  "decimalInt k = (if k < 0 then CHR ''-'' # decimalNat (nat (- k)) else decimalNat (nat k))"

text \<open>\<open>String.includes\<close> and \<open>toLowerCase\<close> (on the ASCII letters).\<close>

fun startsWith :: "string \<Rightarrow> string \<Rightarrow> bool" where
  "startsWith hay [] = True"
| "startsWith [] (c # cs) = False"
| "startsWith (h # hs) (c # cs) = (h = c \<and> startsWith hs cs)"

fun str_includes :: "string \<Rightarrow> string \<Rightarrow> bool" where
  "str_includes [] needle = (needle = [])"
| "str_includes (h # hs) needle = (startsWith (h # hs) needle \<or> str_includes hs needle)"

definition lowerChar :: "char \<Rightarrow> char" where
  "lowerChar c =
     (case map_of (zip ''ABCDEFGHIJKLMNOPQRSTUVWXYZ'' ''abcdefghijklmnopqrstuvwxyz'') c of
        Some l \<Rightarrow> l
      | None \<Rightarrow> c)"

definition toLowerCase :: "string \<Rightarrow> string" where
  "toLowerCase str = map lowerChar str"

datatype gamma_lists = ListsThrow | Lists "string list" "real option list"

datatype balance_reply = BalanceThrows | Balance nat

record Receipt =
  rc_status :: int
  rc_blockNumber :: nat

datatype wait_reply = WaitThrows | WaitReturns Receipt

datatype poll_reply = PollThrows | PollReturns "Receipt option"

record TxScript =
  tx_hash :: string
  tx_wait :: "nat \<Rightarrow> wait_reply"
  tx_poll :: poll_reply

record JsError =
  e_reason :: string
  e_error_message :: string
  e_message :: string
  e_string :: string

datatype redeem_reply = RedeemThrows JsError | RedeemSubmitted TxScript

record TokenScript =
  t_tokenId :: string
  t_balance :: balance_reply
  t_redeem :: redeem_reply

record GammaMarket =
  g_conditionId :: string
  g_lists :: gamma_lists
  g_tokens :: "TokenScript list option"

datatype fetch_reply = NoMarket | FirstMarket GammaMarket

datatype connect_reply = ConnectThrows string | Connected

datatype matic_reply = MaticThrows string | MaticBalance nat

record SweepEnv =
  sweepClock :: clock
  connect :: connect_reply
  matic :: matic_reply
  fetchMarket :: "string \<Rightarrow> fetch_reply"

datatype sweep_log =
    FailedToConnect string
  | SkippingInsufficientMatic nat
  | RpcErrorCheckingBalance string
  | ResolvedLog string outcome_label
  | FoundShares nat string string
  | TxSubmitted string
  | WaitingForConfirmation nat
  | RedeemedShares nat string nat
  | TxReverted string
  | TxSentReceiptUnavailable string string
  | OutOfMatic
  | FailedOn string string
  | SweepCompleteNothing
  | SweepCompleteRedeemed nat

record SweepWorld =
  sw_ledger :: LedgerFile
  sw_logged :: "sweep_log list"
  redeemAttempts :: "(string \<times> string) list"

datatype flow = Continue | Return

text \<open>
  \<open>getWinner\<close>: the first price equal to 1 decides; its label, lower-cased, names Up when it
  contains \<open>up\<close> and Down otherwise; a missing label counts as the empty string.
\<close>

fun winnerScan :: "string list \<Rightarrow> real option list \<Rightarrow> outcome_label option" where
  "winnerScan labels [] = None"
| "winnerScan labels (p # ps) =
     (if p = Some 1 then
        (let label = toLowerCase (case labels of [] \<Rightarrow> [] | l # ls \<Rightarrow> l)
         in Some (if str_includes label ''up'' then Up else Down))
      else winnerScan (case labels of [] \<Rightarrow> [] | l # ls \<Rightarrow> ls) ps)"

definition getWinner :: "GammaMarket \<Rightarrow> outcome_label option" where
  "getWinner market =
     (case g_lists market of
        ListsThrow \<Rightarrow> None
      | Lists labels prices \<Rightarrow> winnerScan labels prices)"

text \<open>
  \<open>waitForTx\<close>: three attempts of \<open>tx.wait()\<close>, each failure logged with the number of the
  next attempt, then one poll of the receipt, which counts only with a block number.
\<close>

fun waitAttempts :: "(nat \<Rightarrow> wait_reply) \<Rightarrow> nat list \<Rightarrow> Receipt option \<times> sweep_log list" where
  "waitAttempts wait [] = (None, [])"
| "waitAttempts wait (attempt # later) =
     (case wait attempt of
        WaitReturns receipt \<Rightarrow> (Some receipt, [])
      | WaitThrows \<Rightarrow>
          (case waitAttempts wait later of
             (receipt, logs) \<Rightarrow> (receipt, WaitingForConfirmation (attempt + 2) # logs)))"

definition waitForTx :: "TxScript \<Rightarrow> Receipt option \<times> sweep_log list" where
  "waitForTx tx =
     (case waitAttempts (tx_wait tx) [0, 1, 2] of
        (Some receipt, logs) \<Rightarrow> (Some receipt, logs)
      | (None, logs) \<Rightarrow>
          (case tx_poll tx of
             PollReturns (Some receipt) \<Rightarrow>
               if rc_blockNumber receipt \<noteq> 0 then (Some receipt, logs) else (None, logs)
           | _ \<Rightarrow> (None, logs)))"

text \<open>
  The reason read from a caught error is the first non-empty of \<open>err.reason\<close>,
  \<open>err.error?.message\<close>, \<open>err.message\<close> and \<open>String(err)\<close>.
\<close>

definition recognizedReason :: "JsError \<Rightarrow> string" where
  "recognizedReason err =
     (if e_reason err \<noteq> [] then e_reason err
      else if e_error_message err \<noteq> [] then e_error_message err
      else if e_message err \<noteq> [] then e_message err
      else e_string err)"

definition sweepLog :: "sweep_log list \<Rightarrow> SweepWorld \<Rightarrow> SweepWorld" where
  "sweepLog ls w = w\<lparr>sw_logged := sw_logged w @ ls\<rparr>"

definition enterRedeem :: "nat \<Rightarrow> string \<Rightarrow> string \<Rightarrow> TokenScript \<Rightarrow> SweepWorld \<Rightarrow> SweepWorld" where
  "enterRedeem bal sl cid t w =
     sweepLog [FoundShares bal sl cid]
       (w\<lparr>redeemAttempts := redeemAttempts w @ [(cid, t_tokenId t)]\<rparr>)"

text \<open>
  The body of the token loop for one token: \<open>Return\<close> when the function returns from inside
  the loop, \<open>Continue\<close> when the loop goes on with the next token. The second component of
  the state is \<open>redeemedCount\<close>.
\<close>

definition redeemToken ::
  "string \<Rightarrow> string \<Rightarrow> TokenScript \<Rightarrow> SweepWorld \<times> nat \<Rightarrow> flow \<times> SweepWorld \<times> nat" where
  "redeemToken sl cid t st =
     (case st of (w, redeemedCount) \<Rightarrow>
        (case t_balance t of
           BalanceThrows \<Rightarrow> (Continue, st)
         | Balance bal \<Rightarrow>
             if bal > 0 then
               (let w1 = enterRedeem bal sl cid t w
                in case t_redeem t of
                     RedeemThrows err \<Rightarrow>
                       (let why = recognizedReason err
                        in if str_includes why ''insufficient funds'' then
                             (Return, (sweepLog [OutOfMatic] w1, redeemedCount))
                           else (Continue, (sweepLog [FailedOn sl why] w1, redeemedCount)))
                   | RedeemSubmitted tx \<Rightarrow>
                       (case waitForTx tx of
                          (receipt, waitLogs) \<Rightarrow>
                            (let w2 = sweepLog (TxSubmitted (tx_hash tx) # waitLogs) w1
                             in case receipt of
                                  Some r \<Rightarrow>
                                    if rc_status r = 1 then
                                      (Continue,
                                       (sweepLog [RedeemedShares bal sl (rc_blockNumber r)] w2,
                                        redeemedCount + 1))
                                    else if rc_status r = 0 then
                                      (Continue, (sweepLog [TxReverted sl] w2, redeemedCount))
                                    else
                                      (Continue,
                                       (sweepLog [TxSentReceiptUnavailable sl (tx_hash tx)] w2,
                                        redeemedCount + 1))
                                | None \<Rightarrow>
                                    (Continue,
                                     (sweepLog [TxSentReceiptUnavailable sl (tx_hash tx)] w2,
                                      redeemedCount + 1)))))
             else (Continue, st)))"

fun redeemTokens ::
  "string \<Rightarrow> string \<Rightarrow> TokenScript list \<Rightarrow> SweepWorld \<times> nat \<Rightarrow> flow \<times> SweepWorld \<times> nat" where
  "redeemTokens sl cid [] st = (Continue, st)"
| "redeemTokens sl cid (t # later) st =
     (case redeemToken sl cid t st of
        (Return, st') \<Rightarrow> (Return, st')
      | (Continue, st') \<Rightarrow> redeemTokens sl cid later st')"

definition slugOfSlot :: "SweepEnv \<Rightarrow> nat \<Rightarrow> string" where
  "slugOfSlot env i =
     (let nowSec = now_ms (sweepClock env) div 1000;
          currentSlotStart = (nowSec div MARKET_DURATION_SEC) * MARKET_DURATION_SEC;
          slotStart = currentSlotStart - int i * MARKET_DURATION_SEC
      in ''btc-updown-15m-'' @ decimalInt slotStart)"

definition noteResolution :: "SweepEnv \<Rightarrow> string \<Rightarrow> GammaMarket \<Rightarrow> SweepWorld \<Rightarrow> SweepWorld" where
  "noteResolution env sl market w =
     (case getWinner market of
        None \<Rightarrow> w
      | Some winner \<Rightarrow>
          if \<not> hasResolution sl (sw_ledger w) then
            sweepLog [ResolvedLog sl winner]
              (w\<lparr>sw_ledger := logResolution sl winner (sweepClock env) (sw_ledger w)\<rparr>)
          else w)"

definition sweepSlot :: "SweepEnv \<Rightarrow> nat \<Rightarrow> SweepWorld \<times> nat \<Rightarrow> flow \<times> SweepWorld \<times> nat" where
  "sweepSlot env i st =
     (let sl = slugOfSlot env i
      in case fetchMarket env sl of
           NoMarket \<Rightarrow> (Continue, st)
         | FirstMarket market \<Rightarrow>
             if g_conditionId market = [] then (Continue, st)
             else
               (let w1 = noteResolution env sl market (fst st)
                in case g_tokens market of
                     None \<Rightarrow> (Continue, (w1, snd st))
                   | Some tokens \<Rightarrow>
                       redeemTokens sl (g_conditionId market) tokens (w1, snd st)))"

fun sweepSlots :: "SweepEnv \<Rightarrow> nat list \<Rightarrow> SweepWorld \<times> nat \<Rightarrow> flow \<times> SweepWorld \<times> nat" where
  "sweepSlots env [] st = (Continue, st)"
| "sweepSlots env (i # later) st =
     (case sweepSlot env i st of
        (Return, st') \<Rightarrow> (Return, st')
      | (Continue, st') \<Rightarrow> sweepSlots env later st')"

text \<open>
  \<open>runRedemptionSweep\<close> is \<open>sweepOver\<close> on the slots 1 to 20; the list of slots is an argument
  of \<open>sweepOver\<close> so that a slot can be named with the slots before and after it.
\<close>

definition sweepOver :: "SweepEnv \<Rightarrow> nat list \<Rightarrow> SweepWorld \<Rightarrow> SweepWorld" where
  "sweepOver env slots w =
     (case connect env of
        ConnectThrows msg \<Rightarrow> sweepLog [FailedToConnect msg] w
      | Connected \<Rightarrow>
          (case matic env of
             MaticThrows msg \<Rightarrow> sweepLog [RpcErrorCheckingBalance msg] w
           | MaticBalance wei \<Rightarrow>
               if wei < 10 ^ 15 then sweepLog [SkippingInsufficientMatic wei] w
               else
                 (case sweepSlots env slots (w, 0) of
                    (Return, (w', redeemedCount)) \<Rightarrow> w'
                  | (Continue, (w', redeemedCount)) \<Rightarrow>
                      if redeemedCount = 0 then sweepLog [SweepCompleteNothing] w'
                      else sweepLog [SweepCompleteRedeemed redeemedCount] w')))"

definition runRedemptionSweep :: "SweepEnv \<Rightarrow> SweepWorld \<Rightarrow> SweepWorld" where
  "runRedemptionSweep env w = sweepOver env [1 ..< 21] w"

fun runSweeps :: "SweepEnv list \<Rightarrow> SweepWorld \<Rightarrow> SweepWorld" where
  "runSweeps [] w = w"
| "runSweeps (env # later) w = runSweeps later (runRedemptionSweep env w)"


text \<open>
  For the ledger across sweeps: the line a sweep writes, a market whose winner can be decoded
  (some price is exactly 1), the resolution lines of a slug in a list of lines, a line that
  some sweep of the run had grounds to write, and a ledger that has grown from the whole
  lines \<open>before\<close> by such lines, at most one per slug and none for a slug for which
  \<open>hasResolution\<close> answers true on \<open>before\<close>.
\<close>

definition resolutionLine :: "SweepEnv \<Rightarrow> string \<Rightarrow> outcome_label \<Rightarrow> log_line" where
  "resolutionLine env sl winner =
     EntryLine (Resolution \<lparr>r_time = iso_time (sweepClock env), r_slug = sl,
                             resolved = winner\<rparr>)"

definition decodable :: "GammaMarket \<Rightarrow> bool" where
  "decodable market \<longleftrightarrow>
     (case g_lists market of ListsThrow \<Rightarrow> False | Lists labels prices \<Rightarrow> Some 1 \<in> set prices)"

definition isResolutionFor :: "string \<Rightarrow> log_line \<Rightarrow> bool" where
  "isResolutionFor sl l \<longleftrightarrow>
     (case l of EntryLine (Resolution r) \<Rightarrow> r_slug r = sl | _ \<Rightarrow> False)"

definition resolutionsFor :: "string \<Rightarrow> log_line list \<Rightarrow> log_line list" where
  "resolutionsFor sl file = filter (isResolutionFor sl) file"

definition justified :: "SweepEnv list \<Rightarrow> log_line \<Rightarrow> bool" where
  "justified envs l \<longleftrightarrow>
     (\<exists>env \<in> set envs. \<exists>sl market winner.
        l = resolutionLine env sl winner \<and> fetchMarket env sl = FirstMarket market
        \<and> g_conditionId market \<noteq> [] \<and> decodable market \<and> getWinner market = Some winner)"

definition onlyOnce :: "SweepEnv list \<Rightarrow> log_line list \<Rightarrow> log_line list \<Rightarrow> bool" where
  "onlyOnce envs before added \<longleftrightarrow>
     (\<forall>l \<in> set added. justified envs l)
     \<and> (\<forall>sl. length (resolutionsFor sl added) \<le> 1
             \<and> (hasResolution sl (newlineEnded before) \<longrightarrow> resolutionsFor sl added = []))"

definition grownOnce :: "SweepEnv list \<Rightarrow> log_line list \<Rightarrow> LedgerFile \<Rightarrow> bool" where
  "grownOnce envs before now \<longleftrightarrow>
     (\<exists>added. now = newlineEnded (before @ added) \<and> onlyOnce envs before added)"

text \<open>Concrete sweeps for the instances below.\<close>

definition redeemedTx :: TxScript where
  "redeemedTx = \<lparr>tx_hash = ''0xtx1'',
      tx_wait = (\<lambda>attempt. WaitReturns \<lparr>rc_status = 1, rc_blockNumber = 70000001\<rparr>),
      tx_poll = PollThrows\<rparr>"

definition heldToken :: TokenScript where
  "heldToken = \<lparr>t_tokenId = ''tok-up'', t_balance = Balance 16000000,
      t_redeem = RedeemSubmitted redeemedTx\<rparr>"

definition emptyToken :: TokenScript where
  "emptyToken = \<lparr>t_tokenId = ''tok-down'', t_balance = Balance 0,
      t_redeem = RedeemSubmitted redeemedTx\<rparr>"

definition resolvedMarket :: GammaMarket where
  "resolvedMarket = \<lparr>g_conditionId = ''0xc0nd'',
      g_lists = Lists [''Up'', ''Down''] [Some 1, Some 0],
      g_tokens = Some [heldToken, emptyToken]\<rparr>"

definition demoSweepEnv :: SweepEnv where
  "demoSweepEnv = \<lparr>sweepClock = demoClock, connect = Connected,
      matic = MaticBalance (10 ^ 17),
      fetchMarket = (\<lambda>sl. if sl = ''btc-updown-15m-1770690600'' then FirstMarket resolvedMarket
                          else NoMarket)\<rparr>"

definition emptySweepWorld :: SweepWorld where
  "emptySweepWorld = \<lparr>sw_ledger = newlineEnded [], sw_logged = [], redeemAttempts = []\<rparr>"

definition revertError :: JsError where
  "revertError = \<lparr>e_reason = ''execution reverted'', e_error_message = [],
      e_message = ''call exception'', e_string = ''Error: call exception''\<rparr>"

definition gasError :: JsError where
  "gasError = \<lparr>e_reason = [],
      e_error_message = ''insufficient funds for gas * price + value'',
      e_message = ''processing response error'', e_string = ''Error''\<rparr>"

definition revertingToken :: TokenScript where
  "revertingToken = \<lparr>t_tokenId = ''tok-a'', t_balance = Balance 5000000,
      t_redeem = RedeemThrows revertError\<rparr>"

definition gasToken :: TokenScript where
  "gasToken = \<lparr>t_tokenId = ''tok-b'', t_balance = Balance 7000000,
      t_redeem = RedeemThrows gasError\<rparr>"

definition gasMarket :: GammaMarket where
  "gasMarket = \<lparr>g_conditionId = ''0xfeed'', g_lists = ListsThrow,
      g_tokens = Some [revertingToken, gasToken, heldToken]\<rparr>"

definition gasEnv :: SweepEnv where
  "gasEnv = \<lparr>sweepClock = demoClock, connect = Connected, matic = MaticBalance (10 ^ 17),
      fetchMarket = (\<lambda>sl. if sl = ''btc-updown-15m-1770690600'' then FirstMarket gasMarket
                          else if sl = ''btc-updown-15m-1770689700'' then FirstMarket resolvedMarket
                          else NoMarket)\<rparr>"

definition afterFirstSweep :: SweepWorld where
  "afterFirstSweep =
     \<lparr>sw_ledger = newlineEnded [resolutionLine demoSweepEnv ''btc-updown-15m-1770690600'' Up],
      sw_logged = [ResolvedLog ''btc-updown-15m-1770690600'' Up,
                   FoundShares 16000000 ''btc-updown-15m-1770690600'' ''0xc0nd'',
                   TxSubmitted ''0xtx1'',
                   RedeemedShares 16000000 ''btc-updown-15m-1770690600'' 70000001,
                   SweepCompleteRedeemed 1],
      redeemAttempts = [(''0xc0nd'', ''tok-up'')]\<rparr>"

definition afterRevertingToken :: SweepWorld where
  "afterRevertingToken =
     \<lparr>sw_ledger = newlineEnded [],
      sw_logged = [FoundShares 5000000 ''btc-updown-15m-1770690600'' ''0xfeed'',
                   FailedOn ''btc-updown-15m-1770690600'' ''execution reverted''],
      redeemAttempts = [(''0xfeed'', ''tok-a'')]\<rparr>"

text \<open>
  Two damaged ledgers: one with a resolution entry of an earlier day followed by a line that
  does not parse, and one that is nothing but a torn tail.
\<close>

definition staleResolution :: log_line where
  "staleResolution =
     EntryLine (Resolution \<lparr>r_time = ''2026-02-10T02:35:30.000Z'',
                             r_slug = ''btc-updown-15m-1770690600'', resolved = Up\<rparr>)"

definition brokenLineSweepWorld :: SweepWorld where
  "brokenLineSweepWorld =
     \<lparr>sw_ledger = newlineEnded [staleResolution, Unparsable], sw_logged = [],
      redeemAttempts = []\<rparr>"

definition tornTailSweepWorld :: SweepWorld where
  "tornTailSweepWorld =
     \<lparr>sw_ledger = \<lparr>whole_lines = [], torn_tail = Some Unparsable\<rparr>, sw_logged = [],
      redeemAttempts = []\<rparr>"

section \<open>Guardrails: proofs\<close>

lemma killswitch_maybeResetDaily: "killswitch (maybeResetDaily clk s) = killswitch s"
  by (simp add: maybeResetDaily_def)

lemma killswitch_pruneHourlyTrades: "killswitch (pruneHourlyTrades clk s) = killswitch s"
  by (simp add: pruneHourlyTrades_def)

lemma killswitch_housekeeping:
  "killswitch (pruneHourlyTrades clk (maybeResetDaily clk s)) = killswitch s"
  by (simp add: killswitch_maybeResetDaily killswitch_pruneHourlyTrades)

text \<open>
  C2. With the killswitch set, \<open>checkPreTrade\<close> denies with the killswitch reason, whatever the
  configuration, the order cost, the clock and the other fields of the state are: the
  killswitch is the first check.
\<close>

theorem checkPreTrade_killswitch:
  "killswitch s \<Longrightarrow>
     fst (checkPreTrade config orderSizeUSDC clk s)
       = \<lparr>allowed = False, deny = Some KillswitchActive\<rparr>"
  by (simp add: checkPreTrade_def Let_def killswitch_housekeeping)

theorem checkPreTrade_killswitch_witness:
  "killswitch ((createFreshState demoClock)\<lparr>killswitch := True\<rparr>)
   \<and> fst (checkPreTrade demoConfig 5 demoClock ((createFreshState demoClock)\<lparr>killswitch := True\<rparr>))
       = \<lparr>allowed = False, deny = Some KillswitchActive\<rparr>"
  using checkPreTrade_killswitch
          [of "(createFreshState demoClock)\<lparr>killswitch := True\<rparr>" demoConfig 5 demoClock]
  by simp

text \<open>
  C10. \<open>recordClose\<close> for a key with no open position returns the state as it was, for every
  value of the proceeds: no field changes, and the threshold of the automatic killswitch is
  not looked at.
\<close>

theorem recordClose_no_position:
  "map_of (openPositions s) cid = None \<Longrightarrow> recordClose cid proceeds s = s"
  by (simp add: recordClose_def)

theorem recordClose_no_position_witness:
  "map_of (openPositions ((createFreshState demoClock)\<lparr>dailyPnl := - 100\<rparr>)) ''0xabc'' = None
   \<and> recordClose ''0xabc'' (- 1000) ((createFreshState demoClock)\<lparr>dailyPnl := - 100\<rparr>)
       = (createFreshState demoClock)\<lparr>dailyPnl := - 100\<rparr>"
  using recordClose_no_position
          [of "(createFreshState demoClock)\<lparr>dailyPnl := - 100\<rparr>" "''0xabc''" "- 1000"]
  by (simp add: createFreshState_def)

subsection \<open>The association list behind \<open>openPositions\<close>\<close>

lemma update_free_key:
  "map_of xs k = None \<Longrightarrow> AList.update k v xs = xs @ [(k, v)]"
  by (induction xs) (auto split: if_splits)

lemma map_of_update_same: "map_of (AList.update k v xs) k = Some v"
  by (simp add: update_conv')

lemma map_of_delete_same: "map_of (AList.delete k xs) k = None"
  by (simp add: delete_conv')

lemma sum_delete_distinct:
  "distinct (map fst xs) \<Longrightarrow> map_of xs k = Some v \<Longrightarrow>
     sum_list (map f (AList.delete k xs)) = sum_list (map f xs) - (f (k, v) :: real)"
proof (induction xs)
  case Nil
  then show ?case by simp
next
  case (Cons x xs)
  show ?case
  proof (cases "fst x = k")
    case True
    with Cons.prems have "x = (k, v)" by (cases x) simp
    moreover from Cons.prems True have "k \<notin> fst ` set xs" by auto
    then have "AList.delete k xs = xs" by (simp add: delete_id)
    ultimately show ?thesis by simp
  next
    case False
    with Cons show ?thesis by simp
  qed
qed

subsection \<open>Exposure bookkeeping\<close>

lemma exposureInvariant_fresh: "exposureInvariant (createFreshState clk)"
  by (simp add: exposureInvariant_def createFreshState_def openCostBasis_def)

lemma exposureInvariant_recordTrade:
  assumes "exposureInvariant s" "map_of (openPositions s) (p_conditionId p) = None"
    and "fl (totalExposure s + costBasis p) = totalExposure s + costBasis p"
  shows "exposureInvariant (recordTrade p clk s)"
  using assms
  by (simp add: exposureInvariant_def recordTrade_def openCostBasis_def update_free_key
        map_of_eq_None_iff)

lemma exposureInvariant_recordClose:
  assumes "exposureInvariant s"
    and "case map_of (openPositions s) cid of
           None \<Rightarrow> True
         | Some pos \<Rightarrow> fl (totalExposure s - costBasis pos) = totalExposure s - costBasis pos"
  shows "exposureInvariant (recordClose cid proceeds s)"
proof (cases "map_of (openPositions s) cid")
  case None
  with assms show ?thesis by (simp add: recordClose_def)
next
  case (Some pos)
  from assms have d: "distinct (map fst (openPositions s))"
    and e: "totalExposure s = openCostBasis s"
    by (simp_all add: exposureInvariant_def)
  have "sum_list (map (\<lambda>kv. costBasis (snd kv)) (AList.delete cid (openPositions s)))
        = openCostBasis s - costBasis pos"
    using sum_delete_distinct [OF d Some, of "\<lambda>kv. costBasis (snd kv)"]
    by (simp add: openCostBasis_def)
  with d e Some assms(2) show ?thesis
    by (simp add: exposureInvariant_def recordClose_def Let_def openCostBasis_def distinct_delete)
qed

lemma exposureInvariant_bookAll:
  "exposureInvariant s \<Longrightarrow> tradesOnFreeKeys bs s \<Longrightarrow> exposureStepsExact bs s
     \<Longrightarrow> exposureInvariant (bookAll bs s)"
proof (induction bs arbitrary: s)
  case Nil
  then show ?case by simp
next
  case (Cons b bs)
  then show ?case
    by (cases b) (auto intro: exposureInvariant_recordTrade exposureInvariant_recordClose)
qed

lemmas double_eval = fl_def normalise.simps roundHalfEven_def Let_def

lemmas booking_eval =
  createFreshState_def recordTrade_def recordClose_def demoPosition_def openCostBasis_def Let_def

lemma fl_small: "fl 0 = 0" "fl 3 = 3" "fl 4 = 4" "fl 6 = 6" "fl 9 = 9" "fl 10 = 10"
  by (simp_all add: double_eval)

lemma fl_literals: "fl 9.6 = d9_6" "fl 9.45 = d9_45"
  by (simp_all add: double_eval d9_6_def d9_45_def)

lemma fl_doubles: "fl d9_6 = d9_6" "fl d9_45 = d9_45"
  by (simp_all add: double_eval d9_6_def d9_45_def)

lemma fl_sum: "fl (d9_6 + d9_45) = d19_05"
  by (simp add: double_eval d9_6_def d9_45_def d19_05_def)

lemma fl_sum_commuted: "fl (d9_45 + d9_6) = d19_05"
  using fl_sum by (simp add: add.commute)

lemma fl_less_first: "fl (d19_05 - d9_6) = 5319877059831397 / 2 ^ 49"
  by (simp add: double_eval d9_6_def d19_05_def)

lemma fl_less_second: "fl (d19_05 - d9_45) = 5404319552844594 / 2 ^ 49"
  by (simp add: double_eval d9_45_def d19_05_def)

text \<open>
  C3, as the code has it. From a fresh state, after every run of \<open>recordTrade\<close> and
  \<open>recordClose\<close> calls in which each \<open>recordTrade\<close> is for a condition id with no open position
  at that moment and each addition to and subtraction from \<open>totalExposure\<close> is exact in double
  arithmetic, \<open>totalExposure\<close> is the sum of the cost bases of the open positions.
\<close>

theorem totalExposure_is_open_cost_basis:
  "tradesOnFreeKeys bs (createFreshState clk0) \<Longrightarrow> exposureStepsExact bs (createFreshState clk0)
     \<Longrightarrow> totalExposure (bookAll bs (createFreshState clk0))
           = openCostBasis (bookAll bs (createFreshState clk0))"
  using exposureInvariant_bookAll [OF exposureInvariant_fresh, of bs clk0]
  by (simp add: exposureInvariant_def)

lemma exactRun_free: "tradesOnFreeKeys exactRun (createFreshState demoClock)"
  by (simp add: exactRun_def booking_eval fl_small)

lemma exactRun_exact: "exposureStepsExact exactRun (createFreshState demoClock)"
  by (simp add: exactRun_def booking_eval fl_small)

lemma exactRun_exposure: "totalExposure (bookAll exactRun (createFreshState demoClock)) = 9"
  by (simp add: exactRun_def booking_eval fl_small)

theorem totalExposure_is_open_cost_basis_witness:
  "tradesOnFreeKeys exactRun (createFreshState demoClock)
   \<and> exposureStepsExact exactRun (createFreshState demoClock)
   \<and> totalExposure (bookAll exactRun (createFreshState demoClock)) = 9
   \<and> openCostBasis (bookAll exactRun (createFreshState demoClock)) = 9"
  using totalExposure_is_open_cost_basis [OF exactRun_free exactRun_exact]
        exactRun_free exactRun_exact exactRun_exposure
  by simp

text \<open>
  C3, as the claim states it, fails in two ways. When \<open>recordTrade\<close> is called twice for one
  condition id, \<open>Map.set\<close> replaces the first position while \<open>totalExposure\<close> has received both
  cost bases: after trades of cost 4 and 6 under the key \<open>0xa\<close> the exposure is 10 and the one
  open position has cost basis 6. And with every trade on a free key, the rounding of the
  running sum separates it from the sum of the cost bases: after trades of cost 9.6 and 9.45
  (the doubles \<open>d9_6\<close> and \<open>d9_45\<close>) and the close of the first, the exposure is
  9.449999999999998, one unit in the last place below the cost basis 9.45 of the open
  position.
\<close>

theorem totalExposure_overwrite_counterexample:
  "totalExposure (bookAll overwritingRun (createFreshState demoClock)) = 10
   \<and> openCostBasis (bookAll overwritingRun (createFreshState demoClock)) = 6
   \<and> tradesOnFreeKeys roundingRun (createFreshState demoClock)
   \<and> totalExposure (bookAll roundingRun (createFreshState demoClock))
       = 5319877059831397 / 2 ^ 49
   \<and> openCostBasis (bookAll roundingRun (createFreshState demoClock))
       = 5319877059831398 / 2 ^ 49"
proof -
  have "totalExposure (bookAll overwritingRun (createFreshState demoClock)) = 10"
    and "openCostBasis (bookAll overwritingRun (createFreshState demoClock)) = 6"
    by (simp_all add: overwritingRun_def booking_eval fl_small)
  moreover have "tradesOnFreeKeys roundingRun (createFreshState demoClock)"
    by (simp add: roundingRun_def booking_eval fl_small fl_doubles fl_sum)
  moreover have "totalExposure (bookAll roundingRun (createFreshState demoClock))
       = 5319877059831397 / 2 ^ 49"
    by (simp add: roundingRun_def booking_eval fl_small fl_doubles fl_sum fl_less_first)
  moreover have "openCostBasis (bookAll roundingRun (createFreshState demoClock)) = d9_45"
    by (simp add: roundingRun_def booking_eval fl_small fl_doubles fl_sum fl_less_first)
  moreover have "d9_45 = 5319877059831398 / 2 ^ 49"
    by (simp add: d9_45_def)
  ultimately show ?thesis by simp
qed

text \<open>
  C7, as the code has it. In a state with no open position under \<open>k\<close> and a double as
  \<open>dailyPnl\<close>, \<open>recordTrade\<close> of a position with condition id \<open>k\<close> followed by \<open>recordClose\<close> of
  \<open>k\<close> with proceeds equal to the position's cost basis leaves \<open>dailyPnl\<close> at its value before
  the pair and no position open under \<open>k\<close>. \<open>totalExposure\<close> comes back as the rounded sum
  less the cost basis, rounded again; that is its value before the pair when it was a
  double and the addition of the cost basis was exact.
\<close>

theorem trade_close_round_trip:
  assumes "map_of (openPositions s) k = None" and "p_conditionId p = k"
    and "fl (dailyPnl s) = dailyPnl s"
  shows "dailyPnl (recordClose k (costBasis p) (recordTrade p clk s)) = dailyPnl s
       \<and> map_of (openPositions (recordClose k (costBasis p) (recordTrade p clk s))) k = None
       \<and> totalExposure (recordClose k (costBasis p) (recordTrade p clk s))
           = fl (fl (totalExposure s + costBasis p) - costBasis p)
       \<and> (fl (totalExposure s) = totalExposure s
            \<and> fl (totalExposure s + costBasis p) = totalExposure s + costBasis p
          \<longrightarrow> totalExposure (recordClose k (costBasis p) (recordTrade p clk s))
                = totalExposure s)"
proof -
  have zero: "fl 0 = 0" by (simp add: fl_def)
  show ?thesis
    using assms
    by (simp add: recordClose_def recordTrade_def Let_def map_of_update_same
          map_of_delete_same zero)
qed

lemma holding6_values:
  "dailyPnl (recordTrade (demoPosition ''0xb'' 6) demoClock (createFreshState demoClock)) = 0"
  "totalExposure (recordTrade (demoPosition ''0xb'' 6) demoClock (createFreshState demoClock)) = 6"
  "map_of (openPositions (recordTrade (demoPosition ''0xb'' 6) demoClock
             (createFreshState demoClock))) ''0xa'' = None"
  "fl 0 = 0" "fl 6 = 6" "fl (6 + 4) = 6 + 4"
  by (simp_all add: booking_eval fl_small)

theorem trade_close_round_trip_witness:
  "map_of (openPositions (recordTrade (demoPosition ''0xb'' 6) demoClock
             (createFreshState demoClock))) ''0xa'' = None
   \<and> p_conditionId (demoPosition ''0xa'' 4) = ''0xa''
   \<and> fl 0 = 0 \<and> fl 6 = 6 \<and> fl (6 + 4) = 6 + 4
   \<and> dailyPnl (recordClose ''0xa'' (costBasis (demoPosition ''0xa'' 4))
        (recordTrade (demoPosition ''0xa'' 4) demoClock
          (recordTrade (demoPosition ''0xb'' 6) demoClock (createFreshState demoClock)))) = 0
   \<and> totalExposure (recordClose ''0xa'' (costBasis (demoPosition ''0xa'' 4))
        (recordTrade (demoPosition ''0xa'' 4) demoClock
          (recordTrade (demoPosition ''0xb'' 6) demoClock (createFreshState demoClock)))) = 6"
  using trade_close_round_trip [of "recordTrade (demoPosition ''0xb'' 6) demoClock
             (createFreshState demoClock)" "''0xa''" "demoPosition ''0xa'' 4" demoClock]
        holding6_values
  by (simp add: demoPosition_def)

text \<open>
  C7, as the claim states it, fails on doubles. With 9.6 of exposure from a position under
  another key, the trade and close of a position of cost 9.45 leave 9.599999999999998, one
  unit in the last place below 9.6: the sum 9.6 + 9.45 is rounded to 19.049999999999997, and
  taking 9.45 away does not give 9.6 back.
\<close>

theorem trade_close_rounding_counterexample:
  "map_of (openPositions holding96) ''0xa'' = None
   \<and> p_conditionId (demoPosition ''0xa'' d9_45) = ''0xa''
   \<and> totalExposure holding96 = 5404319552844595 / 2 ^ 49
   \<and> totalExposure (recordClose ''0xa'' (costBasis (demoPosition ''0xa'' d9_45))
        (recordTrade (demoPosition ''0xa'' d9_45) demoClock holding96))
       = 5404319552844594 / 2 ^ 49"
proof -
  have "map_of (openPositions holding96) ''0xa'' = None"
    and "p_conditionId (demoPosition ''0xa'' d9_45) = ''0xa''"
    by (simp_all add: holding96_def booking_eval)
  moreover have "totalExposure holding96 = d9_6"
    by (simp add: holding96_def booking_eval fl_doubles)
  moreover have "d9_6 = 5404319552844595 / 2 ^ 49"
    by (simp add: d9_6_def)
  moreover have "totalExposure (recordClose ''0xa'' (costBasis (demoPosition ''0xa'' d9_45))
        (recordTrade (demoPosition ''0xa'' d9_45) demoClock holding96))
       = 5404319552844594 / 2 ^ 49"
    by (simp add: holding96_def booking_eval fl_small fl_doubles fl_sum fl_less_second)
  ultimately show ?thesis by simp
qed

text \<open>
  C4, as the code has it. With the killswitch set, the daily reset, the pruning,
  \<open>checkPreTrade\<close>, \<open>getGuardrailState\<close>, \<open>recordTrade\<close>, \<open>recordClose\<close> and \<open>activateKillswitch\<close>
  leave it set; \<open>resetKillswitch\<close> clears it, and so does \<open>resetState\<close>, which replaces the
  whole state by a fresh one.
\<close>

theorem killswitch_cleared_only_by_resets:
  "killswitch s \<Longrightarrow>
     killswitch (maybeResetDaily clk s)
   \<and> killswitch (pruneHourlyTrades clk s)
   \<and> killswitch (snd (checkPreTrade config cost clk s))
   \<and> killswitch (snd (getGuardrailState clk s))
   \<and> killswitch (recordTrade p clk s)
   \<and> killswitch (recordClose cid proceeds s)
   \<and> killswitch (activateKillswitch why s)
   \<and> \<not> killswitch (resetKillswitch s)
   \<and> \<not> killswitch (resetState clk s)"
  by (simp add: killswitch_housekeeping killswitch_maybeResetDaily killswitch_pruneHourlyTrades
        checkPreTrade_def getGuardrailState_def recordTrade_def recordClose_def
        activateKillswitch_def resetKillswitch_def resetState_def createFreshState_def
        Let_def split: option.splits)

theorem killswitch_cleared_only_by_resets_witness:
  "killswitch (activateKillswitch ''manual'' (createFreshState demoClock))
   \<and> killswitch (maybeResetDaily (demoClock\<lparr>today := ''2026-02-11''\<rparr>)
        (activateKillswitch ''manual'' (createFreshState demoClock)))
   \<and> killswitch (snd (checkPreTrade demoConfig 5 (demoClock\<lparr>today := ''2026-02-11''\<rparr>)
        (activateKillswitch ''manual'' (createFreshState demoClock))))
   \<and> \<not> killswitch (resetKillswitch (activateKillswitch ''manual'' (createFreshState demoClock)))"
  using killswitch_cleared_only_by_resets
          [of "activateKillswitch ''manual'' (createFreshState demoClock)"
              "demoClock\<lparr>today := ''2026-02-11''\<rparr>" demoConfig 5]
  by (simp add: activateKillswitch_def)

text \<open>
  C4, as the claim states it, fails at \<open>resetState\<close>: an operation of the module other than
  \<open>resetKillswitch\<close> that leaves the killswitch cleared.
\<close>

theorem resetState_clears_killswitch_counterexample:
  "killswitch (activateKillswitch ''manual'' (createFreshState demoClock))
   \<and> \<not> killswitch (resetState demoClock
          (activateKillswitch ''manual'' (createFreshState demoClock)))"
  by (simp add: activateKillswitch_def resetState_def createFreshState_def)

section \<open>Strategy: proofs\<close>

lemma floor_entry_size: "\<lfloor>(10::real) / 0.62\<rfloor> = 16"
  by (simp add: floor_eq_iff)

text \<open>
  C5. When the outcome found by the position's token id is priced 0.95, and the position has
  entry price 0.50, size 10 and cost basis 5.0, with a take-profit fraction of 0.80, the exit
  evaluation computes the gain (9.5 - 5.0) / 5.0 = 0.90 and returns \<open>SELL\<close> for the held outcome
  with suggested size 10 and suggested price 0.95.
\<close>

theorem exit_take_profit:
  assumes "find (\<lambda>cand. tokenId cand = p_tokenId position) (outcomes market) = Some held"
    and "price held = 0.95"
    and "entryPrice position = 0.50" and "p_size position = 10" and "costBasis position = 5.0"
    and "takeProfitPct config = 0.80"
  shows "evaluateExit market position config
           = Inr \<lparr>signal = SELL, sig_outcome = Some held, reason = TakeProfit 0.90 0.80,
                  suggestedSize = Some 10, suggestedPrice = Some 0.95,
                  unrealizedGainPct = Some 0.90\<rparr>"
  using assms by (simp add: evaluateExit_def Let_def)

theorem exit_take_profit_witness:
  "find (\<lambda>cand. tokenId cand = p_tokenId (demoPosition ''0xc0nd'' 5))
       (outcomes (demoMarket 3 [upAt ''tok-up'' 0.95, downAt ''tok-down'' 0.05]))
     = Some (upAt ''tok-up'' 0.95)
   \<and> evaluateExit (demoMarket 3 [upAt ''tok-up'' 0.95, downAt ''tok-down'' 0.05])
         (demoPosition ''0xc0nd'' 5) demoConfig
       = Inr \<lparr>signal = SELL, sig_outcome = Some (upAt ''tok-up'' 0.95),
              reason = TakeProfit 0.90 0.80, suggestedSize = Some 10,
              suggestedPrice = Some 0.95, unrealizedGainPct = Some 0.90\<rparr>"
  using exit_take_profit [of "demoPosition ''0xc0nd'' 5"
          "demoMarket 3 [upAt ''tok-up'' 0.95, downAt ''tok-down'' 0.05]"
          "upAt ''tok-up'' 0.95" demoConfig]
  by (simp add: demoPosition_def demoMarket_def upAt_def downAt_def demoConfig_def)

text \<open>
  The hold-only \<open>evaluateExit\<close> of \<open>src/strategy.ts\<close> computes the same gain in this case and
  returns \<open>HOLD\<close>.
\<close>

lemma exit_hold_only_same_case:
  "evaluateExitHoldOnly (demoMarket 3 [upAt ''tok-up'' 0.95, downAt ''tok-down'' 0.05])
         (demoPosition ''0xc0nd'' 5) demoConfig
       = Inr \<lparr>signal = HOLD, sig_outcome = None, reason = HoldingForResolution Up 0.90,
              suggestedSize = None, suggestedPrice = None, unrealizedGainPct = Some 0.90\<rparr>"
  by (simp add: evaluateExitHoldOnly_def demoPosition_def demoMarket_def upAt_def downAt_def
        Let_def)

text \<open>
  C6. For a market that is not closed, with the outcomes Up at 0.62 and Down at 0.38 (in
  either order), 9.6 minutes remaining and no open position for its condition id, and a
  configuration with entry window 5 to 10 minutes, minimum entry price 0.60 and maximum order
  cost 10, the entry evaluation returns \<open>BUY\<close> for Up with suggested size
  floor (10 / 0.62) = 16 and suggested price 0.62, and \<open>evaluateMarket\<close> returns the entry
  evaluation.
\<close>

theorem entry_buy_leader:
  assumes "\<not> closed_flag market"
    and "outcomes market = [upAt tu 0.62, downAt td 0.38]
         \<or> outcomes market = [downAt td 0.38, upAt tu 0.62]"
    and "minutesRemaining market = 9.6"
    and "find (\<lambda>p. p_conditionId p = conditionId market) (map snd (openPositions s)) = None"
    and "entryWindowMinStart config = 5" and "entryWindowMinEnd config = 10"
    and "minEntryPrice config = 0.60" and "maxOrderSize config = 10"
  shows "evaluateEntry market config
           = Inr \<lparr>signal = BUY, sig_outcome = Some (upAt tu 0.62),
                  reason = EntrySignal Up 0.62 9.6, suggestedSize = Some 16,
                  suggestedPrice = Some 0.62, unrealizedGainPct = None\<rparr>
       \<and> fst (evaluateMarket market config clk s) = evaluateEntry market config"
proof -
  have lead: "getLeadingOutcome market = Some (upAt tu 0.62)"
    using assms(2) by (auto simp: getLeadingOutcome_def upAt_def downAt_def)
  have win: "isInEntryWindow market (entryWindowMinStart config) (entryWindowMinEnd config)"
    using assms by (simp add: isInEntryWindow_def)
  have pos: "openPositions (pruneHourlyTrades clk (maybeResetDaily clk s)) = openPositions s"
    by (simp add: pruneHourlyTrades_def maybeResetDaily_def)
  have entry: "evaluateEntry market config
           = Inr \<lparr>signal = BUY, sig_outcome = Some (upAt tu 0.62),
                  reason = EntrySignal Up 0.62 9.6, suggestedSize = Some 16,
                  suggestedPrice = Some 0.62, unrealizedGainPct = None\<rparr>"
    using assms(1,3,7,8) lead win floor_entry_size
    by (simp add: evaluateEntry_def Let_def upAt_def)
  have "fst (evaluateMarket market config clk s) = evaluateEntry market config"
    using assms(4) by (simp add: evaluateMarket_def getGuardrailState_def Let_def pos)
  with entry show ?thesis by simp
qed


theorem entry_buy_leader_witness:
  "\<not> closed_flag (demoMarket 9.6 [upAt ''tok-up'' 0.62, downAt ''tok-down'' 0.38])
   \<and> find (\<lambda>p. p_conditionId p
               = conditionId (demoMarket 9.6 [upAt ''tok-up'' 0.62, downAt ''tok-down'' 0.38]))
         (map snd (openPositions (createFreshState demoClock))) = None
   \<and> fst (evaluateMarket (demoMarket 9.6 [upAt ''tok-up'' 0.62, downAt ''tok-down'' 0.38])
           demoConfig demoClock (createFreshState demoClock))
       = Inr \<lparr>signal = BUY, sig_outcome = Some (upAt ''tok-up'' 0.62),
              reason = EntrySignal Up 0.62 9.6, suggestedSize = Some 16,
              suggestedPrice = Some 0.62, unrealizedGainPct = None\<rparr>"
  using entry_buy_leader [of "demoMarket 9.6 [upAt ''tok-up'' 0.62, downAt ''tok-down'' 0.38]"
          "''tok-up''" "''tok-down''" "createFreshState demoClock" demoConfig demoClock]
  by (simp add: demoMarket_def demoConfig_def createFreshState_def)

section \<open>Ledger and execution: proofs\<close>

lemma hasEntry_from_last_iff:
  "list_all lineParses ls \<Longrightarrow>
     hasEntry_from_last ty sl ls
       \<longleftrightarrow> (\<exists>e. EntryLine e \<in> set ls \<and> entry_type e = ty \<and> entry_slug e = sl)"
proof (induction ls)
  case Nil
  then show ?case by simp
next
  case (Cons l ls)
  then show ?case by (cases l) (auto simp: lineParses_def)
qed

lemma hasEntry_iff:
  "list_all lineParses (readLines f) \<Longrightarrow>
     hasEntry ty sl f
       \<longleftrightarrow> (\<exists>e. EntryLine e \<in> set (readLines f) \<and> entry_type e = ty \<and> entry_slug e = sl)"
  using hasEntry_from_last_iff [of "rev (readLines f)" ty sl]
  by (simp add: hasEntry_def list_all_iff)

lemma hasEntry_from_last_behind_parsing:
  "list_all lineParses xs \<Longrightarrow> entry_type e = ty \<Longrightarrow> entry_slug e = sl
     \<Longrightarrow> hasEntry_from_last ty sl (xs @ EntryLine e # ys)"
proof (induction xs)
  case Nil
  then show ?case by simp
next
  case (Cons l ls)
  then show ?case by (cases l) (auto simp: lineParses_def)
qed

lemma readLines_newlineEnded: "readLines (newlineEnded ls) = ls"
  by (simp add: readLines_def newlineEnded_def)

text \<open>
  C1, as the code has it. For every market and every BUY signal with an outcome and a
  non-zero size and price: if the lines read from the ledger file hold a buy entry with the
  market's slug and every line after that entry parses, \<open>executeBuy\<close> returns the failure
  "already bought in this block" and leaves the world as it was: no order call, no
  \<open>recordTrade\<close> (the guardrail state is untouched), nothing appended to the ledger, nothing
  logged. The guardrail state is arbitrary, so this holds after a restart, when only the
  file is left.
\<close>

theorem executeBuy_rejects_bought_window:
  assumes "signal sg = BUY" and "sig_outcome sg = Some oc"
    and "suggestedSize sg = Some sz" and "sz \<noteq> 0"
    and "suggestedPrice sg = Some pr" and "pr \<noteq> 0"
    and "readLines (ledger w) = earlier @ EntryLine (Buy b) # later"
    and "b_slug b = slug market"
    and "list_all lineParses later"
  shows "executeBuy sg market config client clk clkAfter w
           = (\<lparr>success = False, orderId = None, message = AlreadyBought (slug market),
               res_dryRun = False\<rparr>, w)"
proof -
  have "list_all lineParses (rev later)"
    using assms(9) by (simp add: list_all_iff)
  then have "hasEntry_from_last ''buy'' (slug market)
               (rev later @ EntryLine (Buy b) # rev earlier)"
    using assms(8) by (intro hasEntry_from_last_behind_parsing) simp_all
  then have "hasBoughtSlug (slug market) (ledger w)"
    using assms(7) by (simp add: hasBoughtSlug_def hasEntry_def)
  with assms(2-6) show ?thesis
    by (simp add: executeBuy_def failure_def Let_def)
qed

lemmas buy_eval =
  executeBuy_def demoBuySignal_def demoMarket_def demoConfig_def emptyWorld_def
  hasBoughtSlug_def hasEntry_def readLines_def newlineEnded_def appendEntry_def
  checkPreTrade_def Let_def createFreshState_def maybeResetDaily_def pruneHourlyTrades_def
  demoClock_def logBuy_def upAt_def demoBuyEntry_def

lemma afterFirstBuy_ledger:
  "ledger afterFirstBuy = newlineEnded [EntryLine (Buy demoBuyEntry)]"
  by (simp add: afterFirstBuy_def buy_eval)

text \<open>
  The instance: a dry-run buy from the empty world writes the buy entry; after a restart
  (fresh guardrail state, same file) a live buy for the same window is rejected and the
  client is not called.
\<close>

theorem executeBuy_rejects_bought_window_witness:
  "readLines (ledger restarted) = [] @ EntryLine (Buy demoBuyEntry) # []
   \<and> b_slug demoBuyEntry
       = slug (demoMarket 9.6 [upAt ''tok-up'' 0.62, downAt ''tok-down'' 0.38])
   \<and> list_all lineParses []
   \<and> executeBuy demoBuySignal
         (demoMarket 9.6 [upAt ''tok-up'' 0.62, downAt ''tok-down'' 0.38])
         (demoConfig\<lparr>dryRun := False\<rparr>) (Some (\<lambda>request. PostReturns ''order-1'' ''matched''))
         demoClock demoClock restarted
       = (\<lparr>success = False, orderId = None,
            message = AlreadyBought ''btc-updown-15m-1770691500'', res_dryRun = False\<rparr>,
          restarted)"
  using executeBuy_rejects_bought_window [of demoBuySignal "upAt ''tok-up'' 0.62" 16 "0.62"
          restarted "[]" demoBuyEntry "[]"
          "demoMarket 9.6 [upAt ''tok-up'' 0.62, downAt ''tok-down'' 0.38]"
          "demoConfig\<lparr>dryRun := False\<rparr>"
          "Some (\<lambda>request. PostReturns ''order-1'' ''matched'')" demoClock demoClock]
        afterFirstBuy_ledger
  by (simp add: restarted_def demoBuySignal_def demoMarket_def demoBuyEntry_def
        readLines_newlineEnded)

text \<open>
  C1, as the claim states it, fails when a line that does not parse follows the buy entry:
  \<open>hasEntry\<close> meets that line first, its \<open>catch\<close> answers false, and the buy goes through. With
  the ledger holding the buy entry of the window and then such a line, a dry-run
  \<open>executeBuy\<close> for the same window succeeds and appends a second buy entry.
\<close>

theorem executeBuy_broken_line_counterexample:
  "EntryLine (Buy demoBuyEntry) \<in> set (readLines (ledger brokenLineWorld))
   \<and> b_slug demoBuyEntry
       = slug (demoMarket 9.6 [upAt ''tok-up'' 0.62, downAt ''tok-down'' 0.38])
   \<and> success (fst (executeBuy demoBuySignal
         (demoMarket 9.6 [upAt ''tok-up'' 0.62, downAt ''tok-down'' 0.38]) demoConfig None
         demoClock demoClock brokenLineWorld))
   \<and> ledger (snd (executeBuy demoBuySignal
         (demoMarket 9.6 [upAt ''tok-up'' 0.62, downAt ''tok-down'' 0.38]) demoConfig None
         demoClock demoClock brokenLineWorld))
       = newlineEnded [EntryLine (Buy demoBuyEntry), Unparsable, EntryLine (Buy demoBuyEntry)]"
  by (simp add: brokenLineWorld_def buy_eval)

section \<open>Redemption sweep: proofs\<close>

lemma winnerScan_decodable: "winnerScan labels prices = Some winner \<Longrightarrow> Some 1 \<in> set prices"
  by (induction prices arbitrary: labels) (auto split: if_splits)

lemma getWinner_decodable: "getWinner market = Some winner \<Longrightarrow> decodable market"
  by (auto simp: getWinner_def decodable_def split: gamma_lists.splits
        dest: winnerScan_decodable)

lemma resolution_entry_iff:
  "(\<exists>e. EntryLine e \<in> set ls \<and> entry_type e = ''resolution'' \<and> entry_slug e = sl)
     \<longleftrightarrow> resolutionsFor sl ls \<noteq> []"
proof
  assume "\<exists>e. EntryLine e \<in> set ls \<and> entry_type e = ''resolution'' \<and> entry_slug e = sl"
  then obtain e where e: "EntryLine e \<in> set ls" "entry_type e = ''resolution''"
    "entry_slug e = sl" by blast
  then have "isResolutionFor sl (EntryLine e)"
    by (cases e) (auto simp: isResolutionFor_def)
  with e(1) show "resolutionsFor sl ls \<noteq> []"
    by (auto simp: resolutionsFor_def filter_empty_conv)
next
  assume "resolutionsFor sl ls \<noteq> []"
  then obtain l where l: "l \<in> set ls" "isResolutionFor sl l"
    by (auto simp: resolutionsFor_def filter_empty_conv)
  then obtain r where "l = EntryLine (Resolution r)" "r_slug r = sl"
    by (auto simp: isResolutionFor_def split: log_line.splits log_entry.splits)
  with l(1) have "EntryLine (Resolution r) \<in> set ls
       \<and> entry_type (Resolution r) = ''resolution'' \<and> entry_slug (Resolution r) = sl"
    by simp
  then show "\<exists>e. EntryLine e \<in> set ls \<and> entry_type e = ''resolution'' \<and> entry_slug e = sl"
    by blast
qed

lemma hasResolution_iff:
  "list_all lineParses (readLines f) \<Longrightarrow>
     hasResolution sl f \<longleftrightarrow> resolutionsFor sl (readLines f) \<noteq> []"
  using hasEntry_iff [of f "''resolution''" sl] resolution_entry_iff [of "readLines f" sl]
  by (simp add: hasResolution_def)

lemma hasEntry_from_last_entries:
  "\<forall>l \<in> set xs. \<exists>e. l = EntryLine e \<Longrightarrow>
     hasEntry_from_last ty sl (xs @ ys)
       \<longleftrightarrow> (\<exists>e. EntryLine e \<in> set xs \<and> entry_type e = ty \<and> entry_slug e = sl)
           \<or> hasEntry_from_last ty sl ys"
  by (induction xs) (auto split: if_splits)

lemma justified_entry: "justified envs l \<Longrightarrow> \<exists>e. l = EntryLine e"
  by (auto simp: justified_def resolutionLine_def)

lemma hasResolution_append:
  assumes "\<forall>l \<in> set added. justified envs l"
  shows "hasResolution sl (newlineEnded (before @ added))
           \<longleftrightarrow> resolutionsFor sl added \<noteq> [] \<or> hasResolution sl (newlineEnded before)"
proof -
  from assms have "\<forall>l \<in> set (rev added). \<exists>e. l = EntryLine e"
    by (auto dest: justified_entry)
  from hasEntry_from_last_entries [OF this, of "''resolution''" sl "rev before"]
  show ?thesis
    using resolution_entry_iff [of added sl]
    by (simp add: hasResolution_def hasEntry_def readLines_newlineEnded)
qed

lemma onlyOnce_Nil: "onlyOnce envs before []"
  by (simp add: onlyOnce_def resolutionsFor_def)

lemma onlyOnce_snoc:
  assumes inv: "onlyOnce envs before added"
    and na: "resolutionsFor sl added = []"
    and nb: "\<not> hasResolution sl (newlineEnded before)"
    and just: "justified envs (resolutionLine env sl winner)"
  shows "onlyOnce envs before (added @ [resolutionLine env sl winner])"
proof -
  have line: "isResolutionFor s (resolutionLine env sl winner) \<longleftrightarrow> s = sl" for s
    by (auto simp: isResolutionFor_def resolutionLine_def)
  have "length (resolutionsFor s (added @ [resolutionLine env sl winner])) \<le> 1
        \<and> (hasResolution s (newlineEnded before)
             \<longrightarrow> resolutionsFor s (added @ [resolutionLine env sl winner]) = [])" for s
  proof (cases "s = sl")
    case True
    with nb na show ?thesis by (simp add: resolutionsFor_def line)
  next
    case False
    with inv show ?thesis by (simp add: resolutionsFor_def line onlyOnce_def)
  qed
  moreover from inv just have "\<forall>l \<in> set (added @ [resolutionLine env sl winner]). justified envs l"
    by (simp add: onlyOnce_def)
  ultimately show ?thesis by (simp add: onlyOnce_def)
qed

lemma grownOnce_refl: "grownOnce envs before (newlineEnded before)"
  unfolding grownOnce_def using onlyOnce_Nil [of envs before]
  by (intro exI [of _ "[]"]) simp

lemma grownOnce_noteResolution:
  assumes g: "grownOnce envs before (sw_ledger w)"
    and env: "env \<in> set envs"
    and m: "fetchMarket env sl = FirstMarket market" "g_conditionId market \<noteq> []"
  shows "grownOnce envs before (sw_ledger (noteResolution env sl market w))"
proof (cases "getWinner market")
  case None
  with g show ?thesis by (simp add: noteResolution_def)
next
  case (Some winner)
  show ?thesis
  proof (cases "hasResolution sl (sw_ledger w)")
    case True
    with g Some show ?thesis by (simp add: noteResolution_def)
  next
    case False
    from g obtain added where a: "sw_ledger w = newlineEnded (before @ added)"
      "onlyOnce envs before added"
      by (auto simp: grownOnce_def)
    from a(2) have "\<forall>l \<in> set added. justified envs l" by (simp add: onlyOnce_def)
    from hasResolution_append [OF this, of sl before] False a(1)
    have na: "resolutionsFor sl added = []"
      and nb: "\<not> hasResolution sl (newlineEnded before)"
      by simp_all
    have "justified envs (resolutionLine env sl winner)"
      using env m Some getWinner_decodable [OF Some] by (auto simp: justified_def)
    with a(2) na nb have "onlyOnce envs before (added @ [resolutionLine env sl winner])"
      by (intro onlyOnce_snoc)
    moreover have "sw_ledger (noteResolution env sl market w)
          = newlineEnded (before @ added @ [resolutionLine env sl winner])"
      using Some False a(1)
      by (simp add: noteResolution_def sweepLog_def logResolution_def resolutionLine_def
            appendEntry_def newlineEnded_def)
    ultimately show ?thesis by (auto simp: grownOnce_def)
  qed
qed

lemma ledger_sweepLog: "sw_ledger (sweepLog ls w) = sw_ledger w"
  by (simp add: sweepLog_def)

lemma ledger_redeemToken: "sw_ledger (fst (snd (redeemToken sl cid t st))) = sw_ledger (fst st)"
  by (cases st)
     (simp add: redeemToken_def Let_def ledger_sweepLog enterRedeem_def
        split: balance_reply.splits redeem_reply.splits prod.splits option.splits)

lemma ledger_redeemTokens:
  "sw_ledger (fst (snd (redeemTokens sl cid ts st))) = sw_ledger (fst st)"
proof (induction ts arbitrary: st)
  case Nil
  then show ?case by simp
next
  case (Cons t ts)
  show ?case
  proof (cases "redeemToken sl cid t st")
    case (fields f w' n')
    with ledger_redeemToken [of sl cid t st] have "sw_ledger w' = sw_ledger (fst st)" by simp
    with fields Cons.IH [of "(w', n')"] show ?thesis by (cases f) simp_all
  qed
qed

lemma grownOnce_sweepSlot:
  assumes "grownOnce envs before (sw_ledger (fst st))" "env \<in> set envs"
  shows "grownOnce envs before (sw_ledger (fst (snd (sweepSlot env i st))))"
proof (cases "fetchMarket env (slugOfSlot env i)")
  case NoMarket
  with assms show ?thesis by (simp add: sweepSlot_def)
next
  case (FirstMarket market)
  show ?thesis
  proof (cases "g_conditionId market = []")
    case True
    with FirstMarket assms show ?thesis by (simp add: sweepSlot_def)
  next
    case False
    have "grownOnce envs before
            (sw_ledger (noteResolution env (slugOfSlot env i) market (fst st)))"
      using assms FirstMarket False by (intro grownOnce_noteResolution)
    with FirstMarket False show ?thesis
      by (simp add: sweepSlot_def Let_def ledger_redeemTokens split: option.splits)
  qed
qed

lemma grownOnce_sweepSlots:
  assumes "env \<in> set envs"
  shows "grownOnce envs before (sw_ledger (fst st))
           \<Longrightarrow> grownOnce envs before (sw_ledger (fst (snd (sweepSlots env slots st))))"
proof (induction slots arbitrary: st)
  case Nil
  then show ?case by simp
next
  case (Cons i slots)
  have step: "grownOnce envs before (sw_ledger (fst (snd (sweepSlot env i st))))"
    using assms Cons.prems by (intro grownOnce_sweepSlot)
  show ?case
  proof (cases "sweepSlot env i st")
    case (fields f w' n')
    with step have "grownOnce envs before (sw_ledger (fst (w', n')))" by simp
    from Cons.IH [OF this] fields step show ?thesis by (cases f) simp_all
  qed
qed

lemma grownOnce_sweepOver:
  assumes "env \<in> set envs" "grownOnce envs before (sw_ledger w)"
  shows "grownOnce envs before (sw_ledger (sweepOver env slots w))"
proof -
  have "grownOnce envs before (sw_ledger (fst (snd (sweepSlots env slots (w, 0)))))"
    using assms by (intro grownOnce_sweepSlots) simp_all
  moreover obtain f w' n where r: "sweepSlots env slots (w, 0) = (f, w', n)"
    by (cases "sweepSlots env slots (w, 0)") auto
  ultimately have "grownOnce envs before (sw_ledger w')" by simp
  with assms(2) r show ?thesis
    by (cases f)
       (simp_all add: sweepOver_def ledger_sweepLog
          split: connect_reply.splits matic_reply.splits)
qed

lemma grownOnce_runSweeps:
  "set run \<subseteq> set envs \<Longrightarrow> grownOnce envs before (sw_ledger w)
     \<Longrightarrow> grownOnce envs before (sw_ledger (runSweeps run w))"
proof (induction run arbitrary: w)
  case Nil
  then show ?case by simp
next
  case (Cons env run)
  then have "grownOnce envs before (sw_ledger (runRedemptionSweep env w))"
    by (simp add: runRedemptionSweep_def grownOnce_sweepOver)
  with Cons show ?case by simp
qed

lemma newlineEnded_whole_lines: "torn_tail f = None \<Longrightarrow> newlineEnded (whole_lines f) = f"
  by (simp add: newlineEnded_def)

text \<open>
  C8, as the code has it. Run any number of sweeps one after the other, from a ledger file
  with no torn tail (it is missing, empty, or ends in a newline). The file grows by whole
  lines only. Every line added is a resolution entry for a slug whose market, as fetched in
  one of the sweeps, had a condition id and a decodable winner (some price exactly 1). At
  most one line is added per slug. None is added for a slug for which \<open>hasResolution\<close> answers
  true on the file at the start; when the lines of that file all parse (as the lines written
  by \<open>logBuy\<close> and \<open>logResolution\<close> onto whole lines do), that is every slug with a resolution
  entry in it.
\<close>

theorem resolution_appended_at_most_once:
  assumes "torn_tail (sw_ledger w) = None"
  shows "\<exists>added. sw_ledger (runSweeps envs w)
                  = newlineEnded (whole_lines (sw_ledger w) @ added)
     \<and> (\<forall>l \<in> set added. justified envs l)
     \<and> (\<forall>sl. length (resolutionsFor sl added) \<le> 1
             \<and> (hasResolution sl (sw_ledger w) \<longrightarrow> resolutionsFor sl added = [])
             \<and> (list_all lineParses (whole_lines (sw_ledger w))
                  \<and> resolutionsFor sl (whole_lines (sw_ledger w)) \<noteq> []
                  \<longrightarrow> resolutionsFor sl added = []))"
proof -
  let ?before = "whole_lines (sw_ledger w)"
  have start: "sw_ledger w = newlineEnded ?before"
    using newlineEnded_whole_lines [OF assms] by simp
  have "grownOnce envs ?before (sw_ledger w)"
    using grownOnce_refl [of envs ?before] start by simp
  from grownOnce_runSweeps [of envs envs ?before w, OF _ this]
  obtain added where a: "sw_ledger (runSweeps envs w) = newlineEnded (?before @ added)"
    "onlyOnce envs ?before added"
    by (auto simp: grownOnce_def)
  have started: "hasResolution sl (sw_ledger w) \<longrightarrow> resolutionsFor sl added = []" for sl
    using a(2) start by (simp add: onlyOnce_def)
  have "resolutionsFor sl added = []"
    if "list_all lineParses ?before \<and> resolutionsFor sl ?before \<noteq> []" for sl
  proof -
    have "readLines (sw_ledger w) = ?before"
      using start readLines_newlineEnded [of ?before] by simp
    with that hasResolution_iff [of "sw_ledger w" sl] have "hasResolution sl (sw_ledger w)"
      by simp
    with started show ?thesis by simp
  qed
  with a started show ?thesis by (auto simp: onlyOnce_def)
qed

lemma redeemTokens_append:
  "redeemTokens sl cid (xs @ ys) st =
     (case redeemTokens sl cid xs st of
        (Return, st') \<Rightarrow> (Return, st')
      | (Continue, st') \<Rightarrow> redeemTokens sl cid ys st')"
proof (induction xs arbitrary: st)
  case Nil
  then show ?case by simp
next
  case (Cons x xs)
  show ?case
  proof (cases "redeemToken sl cid x st")
    case (fields f w' n')
    with Cons.IH [of "(w', n')"] show ?thesis by (cases f) simp_all
  qed
qed

lemma sweepSlots_append:
  "sweepSlots env (xs @ ys) st =
     (case sweepSlots env xs st of
        (Return, st') \<Rightarrow> (Return, st')
      | (Continue, st') \<Rightarrow> sweepSlots env ys st')"
proof (induction xs arbitrary: st)
  case Nil
  then show ?case by simp
next
  case (Cons x xs)
  show ?case
  proof (cases "sweepSlot env x st")
    case (fields f w' n')
    with Cons.IH [of "(w', n')"] show ?thesis by (cases f) simp_all
  qed
qed

lemma redeemToken_throws:
  assumes "t_balance t = Balance bal" "0 < bal" "t_redeem t = RedeemThrows err"
  shows "redeemToken sl cid t (w, n) =
           (if str_includes (recognizedReason err) ''insufficient funds''
            then (Return, (sweepLog [OutOfMatic] (enterRedeem bal sl cid t w), n))
            else (Continue,
                  (sweepLog [FailedOn sl (recognizedReason err)] (enterRedeem bal sl cid t w), n)))"
  using assms by (simp add: redeemToken_def Let_def)

text \<open>
  C9. Take a sweep that reaches a token with a positive balance whose redemption attempt
  throws: the slots \<open>before\<close> ran through, the market of slot \<open>i\<close> lists the tokens
  \<open>earlier @ t # later\<close>, and the tokens \<open>earlier\<close> ran through. If the reason read from the
  error contains \<open>insufficient funds\<close>, the slot loop returns at once, with "out of MATIC"
  as the last log line, whatever \<open>later\<close> and \<open>after\<close> are, and so does the sweep, without its
  completion line. For any other error the failure is logged and the loop goes on with
  the tokens \<open>later\<close> and then the slots \<open>after\<close>.
\<close>

theorem insufficient_funds_stops_sweep:
  assumes tok: "t_balance t = Balance bal" "0 < bal" "t_redeem t = RedeemThrows err"
    and mkt: "fetchMarket env (slugOfSlot env i) = FirstMarket market"
      "g_conditionId market \<noteq> []" "g_tokens market = Some (earlier @ t # later)"
    and before: "sweepSlots env before (w0, 0) = (Continue, (w1, n1))"
    and earlier: "redeemTokens (slugOfSlot env i) (g_conditionId market) earlier
                    (noteResolution env (slugOfSlot env i) market w1, n1)
                  = (Continue, (w2, n2))"
    and up: "connect env = Connected" "matic env = MaticBalance wei" "\<not> wei < 10 ^ 15"
  shows "sweepSlots env (before @ i # after) (w0, 0) =
           (if str_includes (recognizedReason err) ''insufficient funds''
            then (Return,
                  (sweepLog [OutOfMatic]
                     (enterRedeem bal (slugOfSlot env i) (g_conditionId market) t w2), n2))
            else (case redeemTokens (slugOfSlot env i) (g_conditionId market) later
                         (sweepLog [FailedOn (slugOfSlot env i) (recognizedReason err)]
                            (enterRedeem bal (slugOfSlot env i) (g_conditionId market) t w2),
                          n2) of
                    (Return, st') \<Rightarrow> (Return, st')
                  | (Continue, st') \<Rightarrow> sweepSlots env after st'))
       \<and> (str_includes (recognizedReason err) ''insufficient funds'' \<longrightarrow>
            sweepOver env (before @ i # after) w0
              = sweepLog [OutOfMatic]
                  (enterRedeem bal (slugOfSlot env i) (g_conditionId market) t w2))"
proof -
  let ?sl = "slugOfSlot env i" and ?cid = "g_conditionId market"
  let ?found = "enterRedeem bal ?sl ?cid t w2"
  have tokens: "redeemTokens ?sl ?cid (earlier @ t # later) (noteResolution env ?sl market w1, n1)
      = (if str_includes (recognizedReason err) ''insufficient funds''
         then (Return, (sweepLog [OutOfMatic] ?found, n2))
         else redeemTokens ?sl ?cid later
                (sweepLog [FailedOn ?sl (recognizedReason err)] ?found, n2))"
    by (simp add: redeemTokens_append earlier redeemToken_throws [OF tok])
  have slot: "sweepSlot env i (w1, n1)
      = redeemTokens ?sl ?cid (earlier @ t # later) (noteResolution env ?sl market w1, n1)"
    using mkt by (simp add: sweepSlot_def Let_def)
  have slots: "sweepSlots env (before @ i # after) (w0, 0) =
           (if str_includes (recognizedReason err) ''insufficient funds''
            then (Return, (sweepLog [OutOfMatic] ?found, n2))
            else (case redeemTokens ?sl ?cid later
                         (sweepLog [FailedOn ?sl (recognizedReason err)] ?found, n2) of
                    (Return, st') \<Rightarrow> (Return, st')
                  | (Continue, st') \<Rightarrow> sweepSlots env after st'))"
    by (simp add: sweepSlots_append before slot tokens)
  have "sweepOver env (before @ i # after) w0 = sweepLog [OutOfMatic] ?found"
    if "str_includes (recognizedReason err) ''insufficient funds''"
    using that up slots by (simp add: sweepOver_def)
  with slots show ?thesis by blast
qed


subsection \<open>Two concrete runs\<close>

lemma slots_list: "[1 ..< 21] = [1,2,3,4,5,6,7,8,9,10,11,12,13,14,15,16,17,18,19,20::nat]"
  by (simp add: upt_rec)

lemmas sweep_eval =
  sweepOver_def sweepSlot_def slugOfSlot_def
  MARKET_DURATION_SEC_def decimalInt_def decimalNat.simps digitChar_def Let_def
  noteResolution_def getWinner_def toLowerCase_def lowerChar_def
  hasResolution_def hasEntry_def logResolution_def sweepLog_def redeemToken_def enterRedeem_def
  readLines_def newlineEnded_def appendEntry_def
  waitForTx_def recognizedReason_def

lemmas demo_values =
  demoSweepEnv_def demoClock_def resolvedMarket_def heldToken_def emptyToken_def
  redeemedTx_def emptySweepWorld_def resolutionLine_def gasEnv_def gasMarket_def
  gasToken_def revertingToken_def gasError_def revertError_def

lemma demo_first_sweep: "runRedemptionSweep demoSweepEnv emptySweepWorld = afterFirstSweep"
  unfolding runRedemptionSweep_def slots_list
  by (simp add: sweep_eval demo_values afterFirstSweep_def)

lemma demo_second_sweep:
  "sw_ledger (runRedemptionSweep demoSweepEnv afterFirstSweep) = sw_ledger afterFirstSweep"
  unfolding runRedemptionSweep_def slots_list
  by (simp add: sweep_eval demo_values afterFirstSweep_def)

theorem resolution_appended_at_most_once_witness:
  "torn_tail (sw_ledger afterFirstSweep) = None
   \<and> list_all lineParses (whole_lines (sw_ledger afterFirstSweep))
   \<and> hasResolution ''btc-updown-15m-1770690600'' (sw_ledger afterFirstSweep)
   \<and> resolutionsFor ''btc-updown-15m-1770690600'' (whole_lines (sw_ledger afterFirstSweep))
       \<noteq> []
   \<and> sw_ledger (runSweeps [demoSweepEnv] afterFirstSweep) = sw_ledger afterFirstSweep
   \<and> sw_ledger (runSweeps [demoSweepEnv, demoSweepEnv] emptySweepWorld)
       = newlineEnded [resolutionLine demoSweepEnv ''btc-updown-15m-1770690600'' Up]"
  using resolution_appended_at_most_once [of afterFirstSweep "[demoSweepEnv]"]
        resolution_appended_at_most_once [of emptySweepWorld "[demoSweepEnv, demoSweepEnv]"]
        demo_first_sweep demo_second_sweep
  by (simp add: emptySweepWorld_def afterFirstSweep_def lineParses_def resolutionLine_def
        resolutionsFor_def isResolutionFor_def hasResolution_def hasEntry_def readLines_def
        newlineEnded_def)

text \<open>
  C8, as the claim states it, fails on a ledger with a line that does not parse after the
  resolution entry of a slug: \<open>hasResolution\<close> answers false, and a sweep that decodes the
  winner of that slug appends a second resolution entry for it.
\<close>

theorem resolution_broken_line_counterexample:
  "torn_tail (sw_ledger brokenLineSweepWorld) = None
   \<and> resolutionsFor ''btc-updown-15m-1770690600'' (whole_lines (sw_ledger brokenLineSweepWorld))
       = [staleResolution]
   \<and> sw_ledger (runRedemptionSweep demoSweepEnv brokenLineSweepWorld)
       = newlineEnded [staleResolution, Unparsable,
                       resolutionLine demoSweepEnv ''btc-updown-15m-1770690600'' Up]"
  unfolding runRedemptionSweep_def slots_list
  by (simp add: sweep_eval demo_values brokenLineSweepWorld_def staleResolution_def
        resolutionsFor_def isResolutionFor_def)

text \<open>
  On a torn tail the first resolution entry is glued onto the tail and lost to
  \<open>hasResolution\<close>, so the next sweep logs the resolution of the same slug once more: two
  sweeps call \<open>logResolution\<close> twice for one slug.
\<close>

lemma torn_tail_first_sweep:
  "sw_ledger (runRedemptionSweep demoSweepEnv tornTailSweepWorld) = newlineEnded [Unparsable]
   \<and> filter (\<lambda>l. l = ResolvedLog ''btc-updown-15m-1770690600'' Up)
        (sw_logged (runRedemptionSweep demoSweepEnv tornTailSweepWorld))
       = [ResolvedLog ''btc-updown-15m-1770690600'' Up]"
  unfolding runRedemptionSweep_def slots_list
  by (simp add: sweep_eval demo_values tornTailSweepWorld_def)

lemma torn_tail_second_sweep:
  "sw_ledger (runRedemptionSweep demoSweepEnv
       (tornTailSweepWorld\<lparr>sw_ledger := newlineEnded [Unparsable]\<rparr>))
     = newlineEnded [Unparsable, resolutionLine demoSweepEnv ''btc-updown-15m-1770690600'' Up]"
  unfolding runRedemptionSweep_def slots_list
  by (simp add: sweep_eval demo_values tornTailSweepWorld_def)

theorem insufficient_funds_stops_sweep_witness:
  "str_includes (recognizedReason gasError) ''insufficient funds''
   \<and> \<not> str_includes (recognizedReason revertError) ''insufficient funds''
   \<and> g_tokens gasMarket = Some ([revertingToken] @ gasToken # [heldToken])
   \<and> runRedemptionSweep gasEnv emptySweepWorld
       = \<lparr>sw_ledger = newlineEnded [],
          sw_logged = [FoundShares 5000000 ''btc-updown-15m-1770690600'' ''0xfeed'',
                       FailedOn ''btc-updown-15m-1770690600'' ''execution reverted'',
                       FoundShares 7000000 ''btc-updown-15m-1770690600'' ''0xfeed'',
                       OutOfMatic],
          redeemAttempts = [(''0xfeed'', ''tok-a''), (''0xfeed'', ''tok-b'')]\<rparr>"
proof -
  have sl: "slugOfSlot gasEnv 1 = ''btc-updown-15m-1770690600''"
    by (simp add: sweep_eval demo_values)
  have tok: "t_balance gasToken = Balance 7000000" "(0::nat) < 7000000"
    "t_redeem gasToken = RedeemThrows gasError"
    by (simp_all add: gasToken_def)
  have mkt: "fetchMarket gasEnv (slugOfSlot gasEnv 1) = FirstMarket gasMarket"
    "g_conditionId gasMarket \<noteq> []"
    "g_tokens gasMarket = Some ([revertingToken] @ gasToken # [heldToken])"
    unfolding sl by (simp_all add: gasEnv_def gasMarket_def)
  have before: "sweepSlots gasEnv [] (emptySweepWorld, 0) = (Continue, (emptySweepWorld, 0))"
    by simp
  have earlier: "redeemTokens (slugOfSlot gasEnv 1) (g_conditionId gasMarket) [revertingToken]
        (noteResolution gasEnv (slugOfSlot gasEnv 1) gasMarket emptySweepWorld, 0)
      = (Continue, (afterRevertingToken, 0))"
    unfolding sl by (simp add: sweep_eval demo_values afterRevertingToken_def)
  have up: "connect gasEnv = Connected" "matic gasEnv = MaticBalance (10 ^ 17)"
    "\<not> (10 ^ 17 :: nat) < 10 ^ 15"
    by (simp_all add: gasEnv_def)
  have gas: "str_includes (recognizedReason gasError) ''insufficient funds''"
    by (simp add: recognizedReason_def gasError_def)
  have other: "\<not> str_includes (recognizedReason revertError) ''insufficient funds''"
    by (simp add: recognizedReason_def revertError_def)
  have "sweepOver gasEnv ([] @ 1 # [2,3,4,5,6,7,8,9,10,11,12,13,14,15,16,17,18,19,20])
          emptySweepWorld
        = sweepLog [OutOfMatic]
            (enterRedeem 7000000 (slugOfSlot gasEnv 1) (g_conditionId gasMarket) gasToken
               afterRevertingToken)"
    using insufficient_funds_stops_sweep [OF tok mkt before earlier up] gas by blast
  then have "runRedemptionSweep gasEnv emptySweepWorld
        = sweepLog [OutOfMatic]
            (enterRedeem 7000000 ''btc-updown-15m-1770690600'' ''0xfeed'' gasToken
               afterRevertingToken)"
    unfolding runRedemptionSweep_def slots_list sl by (simp add: gasMarket_def)
  with gas other mkt(3) show ?thesis
    by (simp add: sweepLog_def enterRedeem_def afterRevertingToken_def gasToken_def)
qed

end
